theory Spec2Isabelle
  imports Main "HOL-Library.AList"
begin

section \<open>Strings, the backend marker and the SSH connect-command pattern\<close>

text \<open>
  Python strings are sequences of code points. They are modelled as \<open>string\<close>, each
  \<open>char\<close> standing for the code point of the same number, so the model covers the
  code points 0 to 255 (ASCII and Latin-1). The character classes below are Python's
  Unicode classes restricted to that range.
\<close>

definition code_point :: "char \<Rightarrow> nat" where
  "code_point c = of_char c"

definition in_range :: "nat \<Rightarrow> nat \<Rightarrow> char \<Rightarrow> bool" where
  "in_range lo hi c = (lo \<le> code_point c \<and> code_point c \<le> hi)"

text \<open>
  \<^verbatim>\<open>str.lower()\<close>: the capital letters A to Z and the Latin-1 capitals (U+00C0 to U+00DE
  without the multiplication sign U+00D7) move up by 32; every other code point of the
  range stays.
\<close>

definition lower_char :: "char \<Rightarrow> char" where
  "lower_char c =
     (if in_range 65 90 c \<or> in_range 192 214 c \<or> in_range 216 222 c
      then char_of (code_point c + 32) else c)"

definition lower :: "string \<Rightarrow> string" where
  "lower s = map lower_char s"

fun startswith :: "string \<Rightarrow> string \<Rightarrow> bool" where
  "startswith s [] = True"
| "startswith [] (p # ps) = False"
| "startswith (c # cs) (p # ps) = (c = p \<and> startswith cs ps)"

text \<open>Python's \<^verbatim>\<open>needle in haystack\<close> on strings: the needle occurs at some position.\<close>

fun py_in :: "string \<Rightarrow> string \<Rightarrow> bool" where
  "py_in needle [] = (needle = [])"
| "py_in needle (c # cs) = (startswith (c # cs) needle \<or> py_in needle cs)"

text \<open>The test every construction path runs: \<^verbatim>\<open>"brd" in sandbox_id.lower()\<close>.\<close>

definition is_brd :: "string \<Rightarrow> bool" where
  "is_brd sandbox_id = py_in ''brd'' (lower sandbox_id)"

text \<open>
  The classes of the pattern: \<^verbatim>\<open>\s\<close> (tab to carriage return, the four separators
  U+001C to U+001F, space, U+0085, U+00A0), \<^verbatim>\<open>\d\<close> (the decimal digits) and \<^verbatim>\<open>\w\<close>
  (alphanumeric code points and the underscore).
\<close>

definition is_space :: "char \<Rightarrow> bool" where
  "is_space c =
     (in_range 9 13 c \<or> in_range 28 32 c \<or> code_point c = 133 \<or> code_point c = 160)"

definition is_digit :: "char \<Rightarrow> bool" where
  "is_digit c = in_range 48 57 c"

definition is_word :: "char \<Rightarrow> bool" where
  "is_word c =
     (in_range 48 57 c \<or> in_range 65 90 c \<or> in_range 97 122 c \<or> c = CHR ''_''
      \<or> code_point c \<in> {170, 178, 179, 181, 185, 186, 188, 189, 190}
      \<or> in_range 192 214 c \<or> in_range 216 246 c \<or> in_range 248 255 c)"

text \<open>
  The pattern \<^verbatim>\<open>ssh\s+-p\s+(\d+).*?\s+([^@\s]+)@([\w\.-]+)\<close> is a sequence of literal
  characters and of repeated character classes. \<open>Rep cls lo greedy capture\<close> repeats
  the class \<open>cls\<close> at least \<open>lo\<close> times, greedily (\<^verbatim>\<open>+\<close>, \<^verbatim>\<open>*\<close>) or lazily
  (\<^verbatim>\<open>*?\<close>), and \<open>capture\<close> says whether the repetition is a group.
\<close>

datatype node = Lit char | Rep "char \<Rightarrow> bool" nat bool bool

fun first_some :: "('a \<Rightarrow> 'b option) \<Rightarrow> 'a list \<Rightarrow> 'b option" where
  "first_some f [] = None"
| "first_some f (x # xs) = (case f x of Some y \<Rightarrow> Some y | None \<Rightarrow> first_some f xs)"

text \<open>
  Backtracking as the \<^verbatim>\<open>re\<close> module does it: a greedy repetition tries the longest
  run first and gives characters back one at a time, a lazy one tries the shortest
  first; the first alternative under which the rest of the pattern matches wins. The
  groups are collected in the order they close.
\<close>

fun match_here :: "node list \<Rightarrow> string \<Rightarrow> string list \<Rightarrow> string list option" where
  "match_here [] s groups = Some groups"
| "match_here (Lit c # ps) s groups =
     (case s of
        [] \<Rightarrow> None
      | x # xs \<Rightarrow> if x = c then match_here ps xs groups else None)"
| "match_here (Rep cls lo greedy capture # ps) s groups =
     (let hi = length (takeWhile cls s);
          counts = (if greedy then rev [lo..<Suc hi] else [lo..<Suc hi])
      in first_some
           (\<lambda>n. match_here ps (drop n s) (if capture then groups @ [take n s] else groups))
           counts)"

text \<open>\<^verbatim>\<open>re.search\<close>: the leftmost start position at which the pattern matches.\<close>

fun search :: "node list \<Rightarrow> string \<Rightarrow> string list option" where
  "search ps [] = match_here ps [] []"
| "search ps (c # cs) =
     (case match_here ps (c # cs) [] of Some g \<Rightarrow> Some g | None \<Rightarrow> search ps cs)"

definition pattern :: "node list" where
  "pattern =
     [Lit CHR ''s'', Lit CHR ''s'', Lit CHR ''h'',
      Rep is_space 1 True False,
      Lit CHR ''-'', Lit CHR ''p'',
      Rep is_space 1 True False,
      Rep is_digit 1 True True,
      Rep (\<lambda>c. c \<noteq> CHR 0x0A) 0 False False,
      Rep is_space 1 True False,
      Rep (\<lambda>c. \<not> (c = CHR ''@'' \<or> is_space c)) 1 True True,
      Lit CHR ''@'',
      Rep (\<lambda>c. is_word c \<or> c = CHR ''.'' \<or> c = CHR ''-'') 1 True True]"

text \<open>\<^verbatim>\<open>int(...)\<close> on a string of decimal digits.\<close>

definition py_int :: "string \<Rightarrow> nat" where
  "py_int ds = foldl (\<lambda>acc c. 10 * acc + (code_point c - 48)) 0 ds"

text \<open>
  The parsing step shared by the constructor and by \<^verbatim>\<open>_create\<close>, \<^verbatim>\<open>_cls_connect\<close>
  and \<^verbatim>\<open>_cls_resume\<close>: \<open>None\<close> is the branch that raises, otherwise the port, the
  username and the host (groups 1, 2 and 3).
\<close>

definition parse_connect_command :: "string \<Rightarrow> (nat \<times> string \<times> string) option" where
  "parse_connect_command cmd =
     (case search pattern cmd of
        Some [g1, g2, g3] \<Rightarrow> Some (py_int g1, g2, g3)
      | _ \<Rightarrow> None)"

section \<open>Daemon versions\<close>

text \<open>
  A \<^verbatim>\<open>packaging.version.Version\<close> is held by its release segment, the tuple of
  numbers of \<^verbatim>\<open>0.1.5\<close>. The library compares release segments as tuples after dropping
  trailing zeros. Pre-release, post-release, development and local segments are outside
  the model, and so is the parsing of the version string: the control plane's answers
  carry the version already parsed.
\<close>

type_synonym version = "nat list"

fun tuple_lt :: "nat list \<Rightarrow> nat list \<Rightarrow> bool" where
  "tuple_lt [] [] = False"
| "tuple_lt [] (y # ys) = True"
| "tuple_lt (x # xs) [] = False"
| "tuple_lt (x # xs) (y # ys) = (x < y \<or> (x = y \<and> tuple_lt xs ys))"

definition strip_zeros :: "version \<Rightarrow> version" where
  "strip_zeros v = rev (dropWhile (\<lambda>n. n = 0) (rev v))"

definition version_lt :: "version \<Rightarrow> version \<Rightarrow> bool" where
  "version_lt a b = tuple_lt (strip_zeros a) (strip_zeros b)"

section \<open>Data of the session controller\<close>

datatype error =
    SandboxException string
  | PyException string
  | TimeoutException string
  | TypeError string
  | KeyError string
  | AttributeError string
  | ApiException string
  | NetworkError string

text \<open>
  \<^verbatim>\<open>ApiParams\<close>, the keyword arguments every operation accepts. The request timeout is
  a number of seconds that the controller only passes on.
\<close>

record api_params =
  p_api_key :: "string option"
  p_domain :: "string option"
  p_debug :: "bool option"
  p_request_timeout :: "nat option"
  p_proxy :: "string option"

definition no_params :: api_params where
  "no_params = \<lparr>p_api_key = None, p_domain = None, p_debug = None,
                  p_request_timeout = None, p_proxy = None\<rparr>"

text \<open>
  The class \<^verbatim>\<open>ConnectionConfig\<close> is not among the source files. The record holds the
  three attributes the controller reads (\<^verbatim>\<open>debug\<close>, \<^verbatim>\<open>proxy\<close>, \<^verbatim>\<open>headers\<close>); its
  constructor and its methods are parameters of the model (see \<open>env\<close> below). A
  dictionary is an association list, and \<^verbatim>\<open>d[k] = v\<close> is \<open>AList.update k v d\<close>.
\<close>

record connection_config =
  cc_debug :: bool
  cc_proxy :: "string option"
  cc_headers :: "(string \<times> string) list"

text \<open>\<^verbatim>\<open>SandboxInfo\<close> (sandbox\_api.py); the two times are seconds.\<close>

record sandbox_info =
  i_sandbox_id :: string
  i_template_id :: string
  i_name :: "string option"
  i_metadata :: "(string \<times> string) list"
  i_started_at :: nat
  i_end_at :: nat
  i_envd_version :: "version option"
  i_envd_access_token :: "string option"

text \<open>
  What the control plane answers to create, to connect or resume, and to the request for
  SSH credentials. An access token that is \<^verbatim>\<open>None\<close> or \<^verbatim>\<open>Unset\<close> is \<open>None\<close>.
\<close>

record create_response =
  r_sandbox_id :: string
  r_envd_version :: "version option"
  r_envd_access_token :: "string option"

record connect_response =
  n_envd_version :: "version option"
  n_envd_access_token :: "string option"

record ssh_info =
  connect_command :: string
  auth_password :: string

record sandbox_metrics =
  m_timestamp :: nat
  m_cpu_used_pct :: nat
  m_mem_used :: nat
  m_disk_used :: nat

text \<open>\<^verbatim>\<open>SandboxApiBase._limits\<close> (sandbox\_api.py), a class attribute.\<close>

record limits =
  max_keepalive_connections :: nat
  max_connections :: nat
  keepalive_expiry :: nat

definition SandboxApiBase_limits :: limits where
  "SandboxApiBase_limits =
     \<lparr>max_keepalive_connections = 10, max_connections = 20, keepalive_expiry = 20\<rparr>"

text \<open>
  \<^verbatim>\<open>TransportWithLogger\<close> and \<^verbatim>\<open>AsyncTransportWithLogger\<close> are plain subclasses of the
  httpx transports, whose constructor makes the transport's connection pool. \<open>t_pool\<close>
  is the identity of that pool.
\<close>

record transport =
  t_pool :: nat
  t_limits :: limits
  t_proxy :: "string option"

text \<open>\<^verbatim>\<open>httpx.Client\<close> / \<^verbatim>\<open>httpx.AsyncClient\<close>: the headers given here go out with every
  request of the client.\<close>

record envd_client =
  c_base_url :: string
  c_transport :: transport
  c_headers :: "(string \<times> string) list"

text \<open>The execution surfaces, by the class that is instantiated and its arguments.\<close>

datatype commands =
    SSHCommands2 "string option" "nat option" "string option" "string option" connection_config
  | Commands string connection_config nat

datatype filesystem =
    SSHSyncFilesystem "string option" "nat option" "string option" "string option"
      connection_config commands commands
  | SSHFilesystem "string option" "nat option" "string option" "string option"
      connection_config commands commands
  | Filesystem string "version option" connection_config nat envd_client

datatype pty = Pty string connection_config nat

datatype adb_shell = ADBShell connection_config string

text \<open>An instance attribute that a constructor may leave unassigned.\<close>

datatype 'a attr = Unassigned | Assigned 'a

text \<open>
  A session object (\<^verbatim>\<open>Sandbox\<close> or \<^verbatim>\<open>AsyncSandbox\<close>), by its attributes. An attribute of
  option type is \<open>None\<close> when it is \<^verbatim>\<open>None\<close> or was never assigned; for
  \<^verbatim>\<open>_envd_version\<close> the two are kept apart, since the asynchronous constructor reads it
  after a conditional assignment. The four \<^verbatim>\<open>adb_*\<close> attributes of the asynchronous
  constructor are left out: no code reads them.
\<close>

record session =
  s_sandbox_id :: string
  s_connection_config :: connection_config
  s_envd_version :: "version option attr"
  s_envd_access_token :: "string option"
  s_ssh_host :: "string option"
  s_ssh_port :: "nat option"
  s_ssh_username :: "string option"
  s_ssh_password :: "string option"
  s_transport :: "transport option"
  s_envd_api_url :: "string option"
  s_envd_api :: "envd_client option"
  s_filesystem :: "filesystem option"
  s_commands :: "commands option"
  s_watch_commands :: "commands option"
  s_pty :: "pty option"
  s_adb_shell :: "adb_shell option"

text \<open>The keyword arguments of the constructors (\<^verbatim>\<open>SandboxOpts\<close>, \<^verbatim>\<open>AsyncSandboxOpts\<close>).\<close>

record sandbox_opts =
  o_sandbox_id :: "string option"
  o_envd_version :: "version option"
  o_envd_access_token :: "string option"
  o_connection_config :: "connection_config option"
  o_ssh_host :: "string option"
  o_ssh_port :: "nat option"
  o_ssh_username :: "string option"
  o_ssh_password :: "string option"
  o_api :: api_params

definition no_opts :: sandbox_opts where
  "no_opts = \<lparr>o_sandbox_id = None, o_envd_version = None, o_envd_access_token = None,
               o_connection_config = None, o_ssh_host = None, o_ssh_port = None,
               o_ssh_username = None, o_ssh_password = None, o_api = no_params\<rparr>"

text \<open>
  A request that an httpx client sends (the client's headers go out with it), and the
  answer to it.
\<close>

record http_request =
  q_url :: string
  q_headers :: "(string \<times> string) list"
  q_timeout :: "nat option"

record http_response =
  status_code :: nat
  body :: string

datatype probe_outcome = Responded http_response | TimedOut | Failed error

section \<open>What the controller calls\<close>

text \<open>
  The code the controller calls and that is not among the source files is a parameter of
  the model, so that every theorem holds whatever that code does: the class attributes
  and \<^verbatim>\<open>get_host\<close> of \<^verbatim>\<open>SandboxSetup\<close>, the constructor and the methods of
  \<^verbatim>\<open>ConnectionConfig\<close>, the control-plane client \<^verbatim>\<open>SandboxApi\<close>, and the execution
  daemon's health route with the decoder of its error payloads. \<open>'w\<close> is the state of
  everything that is reached over the network; a call takes it and returns it changed,
  with the answer or the exception it raises. \<open>class_envd_version\<close> is the class-level
  default of \<^verbatim>\<open>_envd_version\<close> (\<open>None\<close>: the classes define none, and reading the
  unassigned attribute raises). The decoder returns exceptions of the package
  (\<open>error\<close>), a time-out of httpx is an outcome of the request.
\<close>

record 'w env =
  default_template :: string
  default_sandbox_timeout :: int
  envd_port :: nat
  get_host :: "string \<Rightarrow> connection_config \<Rightarrow> nat \<Rightarrow> string"
  class_envd_version :: "version option option"
  ConnectionConfig :: "(string \<times> string) list option \<Rightarrow> api_params \<Rightarrow> connection_config"
  get_api_params :: "connection_config \<Rightarrow> api_params \<Rightarrow> api_params"
  get_request_timeout :: "connection_config \<Rightarrow> nat option \<Rightarrow> nat option"
  api_create_sandbox ::
    "string \<Rightarrow> int \<Rightarrow> bool \<Rightarrow> (string \<times> string) list option \<Rightarrow>
     (string \<times> string) list option \<Rightarrow> bool \<Rightarrow> api_params \<Rightarrow> 'w \<Rightarrow> (error + create_response) \<times> 'w"
  api_get_info :: "string \<Rightarrow> api_params \<Rightarrow> 'w \<Rightarrow> (error + sandbox_info) \<times> 'w"
  api_get_ssh :: "string \<Rightarrow> api_params \<Rightarrow> 'w \<Rightarrow> (error + ssh_info) \<times> 'w"
  api_connect :: "string \<Rightarrow> int \<Rightarrow> api_params \<Rightarrow> 'w \<Rightarrow> (error + connect_response) \<times> 'w"
  api_resume ::
    "string \<Rightarrow> bool \<Rightarrow> int \<Rightarrow> api_params \<Rightarrow> 'w \<Rightarrow> (error + connect_response) \<times> 'w"
  api_pause :: "string \<Rightarrow> api_params \<Rightarrow> 'w \<Rightarrow> (error + bool) \<times> 'w"
  api_kill :: "string \<Rightarrow> api_params \<Rightarrow> 'w \<Rightarrow> (error + bool) \<times> 'w"
  api_set_timeout :: "string \<Rightarrow> int \<Rightarrow> api_params \<Rightarrow> 'w \<Rightarrow> (error + unit) \<times> 'w"
  api_get_metrics ::
    "string \<Rightarrow> nat option \<Rightarrow> nat option \<Rightarrow> api_params \<Rightarrow> 'w \<Rightarrow>
     (error + sandbox_metrics list) \<times> 'w"
  ENVD_API_HEALTH_ROUTE :: string
  envd_send :: "http_request \<Rightarrow> 'w \<Rightarrow> probe_outcome \<times> 'w"
  handle_envd_api_exception :: "http_response \<Rightarrow> error option"

text \<open>
  The state of the running process: what is reached over the network, the number of
  connection pools made so far, the warnings logged, and the requests sent to the
  execution daemon.
\<close>

record 'w process =
  remote :: 'w
  pools :: nat
  warnings :: "string list"
  sent :: "http_request list"

type_synonym ('w, 'a) io = "'w process \<Rightarrow> (error + 'a) \<times> 'w process"

definition ret :: "'a \<Rightarrow> ('w, 'a) io" where
  "ret x st = (Inr x, st)"

definition raise :: "error \<Rightarrow> ('w, 'a) io" where
  "raise e st = (Inl e, st)"

definition and_then :: "('w, 'a) io \<Rightarrow> ('a \<Rightarrow> ('w, 'b) io) \<Rightarrow> ('w, 'b) io" where
  "and_then m k st = (case m st of (Inl e, st') \<Rightarrow> (Inl e, st') | (Inr x, st') \<Rightarrow> k x st')"

text \<open>A call over the network: only the remote part of the state is handed over.\<close>

definition call :: "('w \<Rightarrow> 'a \<times> 'w) \<Rightarrow> 'w process \<Rightarrow> 'a \<times> 'w process" where
  "call f st = (case f (remote st) of (r, w) \<Rightarrow> (r, st\<lparr>remote := w\<rparr>))"

definition new_transport :: "limits \<Rightarrow> string option \<Rightarrow> ('w, transport) io" where
  "new_transport l p st =
     (Inr \<lparr>t_pool = pools st, t_limits = l, t_proxy = p\<rparr>, st\<lparr>pools := Suc (pools st)\<rparr>)"

text \<open>\<^verbatim>\<open>client.get(route, timeout=...)\<close>\<close>

definition client_get :: "envd_client \<Rightarrow> string \<Rightarrow> nat option \<Rightarrow> http_request" where
  "client_get client route timeout =
     \<lparr>q_url = c_base_url client @ route, q_headers = c_headers client, q_timeout = timeout\<rparr>"

definition send :: "'w env \<Rightarrow> http_request \<Rightarrow> 'w process \<Rightarrow> probe_outcome \<times> 'w process" where
  "send env q st = call (envd_send env q) (st\<lparr>sent := sent st @ [q]\<rparr>)"

definition log_warning :: "string \<Rightarrow> ('w, unit) io" where
  "log_warning msg st = (Inr (), st\<lparr>warnings := warnings st @ [msg]\<rparr>)"

text \<open>\<^verbatim>\<open>x or default\<close> on an optional number and on an optional string.\<close>

definition int_or :: "int option \<Rightarrow> int \<Rightarrow> int" where
  "int_or x d = (case x of None \<Rightarrow> d | Some n \<Rightarrow> if n = 0 then d else n)"

definition str_or :: "string option \<Rightarrow> string \<Rightarrow> string" where
  "str_or x d = (case x of None \<Rightarrow> d | Some s \<Rightarrow> if s = [] then d else s)"

definition envd_url :: "'w env \<Rightarrow> string \<Rightarrow> connection_config \<Rightarrow> string" where
  "envd_url env sandbox_id cfg =
     (if cc_debug cfg then ''http'' else ''https'') @ ''://'' @
     get_host env sandbox_id cfg (envd_port env)"

section \<open>The synchronous constructor\<close>

text \<open>
  \<^verbatim>\<open>Sandbox.__init__\<close> (sandbox\_sync/main.py) in three parts, in the order of the source:
  the attributes taken from the keyword arguments, the branch that fixes the identity
  (debug mode, an existing sandbox, or a new one), and the choice of the execution
  surfaces. The constructors of the surface classes are taken to store their arguments.
\<close>

definition init_from_opts :: "sandbox_opts \<Rightarrow> connection_config \<Rightarrow> session" where
  "init_from_opts opts cfg =
     \<lparr>s_sandbox_id = [], s_connection_config = cfg,
      s_envd_version = Assigned (o_envd_version opts),
      s_envd_access_token = o_envd_access_token opts,
      s_ssh_host = o_ssh_host opts, s_ssh_port = o_ssh_port opts,
      s_ssh_username = o_ssh_username opts, s_ssh_password = o_ssh_password opts,
      s_transport = None, s_envd_api_url = None, s_envd_api = None, s_filesystem = None,
      s_commands = None, s_watch_commands = None, s_pty = None, s_adb_shell = None\<rparr>"

text \<open>\<^verbatim>\<open>self._connection_config.headers["X-Access-Token"] = token\<close>\<close>

definition set_access_token_header :: "string \<Rightarrow> connection_config \<Rightarrow> connection_config" where
  "set_access_token_header token cfg =
     cfg\<lparr>cc_headers := AList.update ''X-Access-Token'' token (cc_headers cfg)\<rparr>"

definition init_identity ::
  "'w env \<Rightarrow> string option \<Rightarrow> int option \<Rightarrow> (string \<times> string) list option \<Rightarrow>
   (string \<times> string) list option \<Rightarrow> bool option \<Rightarrow> sandbox_opts \<Rightarrow> session \<Rightarrow> ('w, session) io" where
  "init_identity env template timeout metadata envs secure opts self =
     (if cc_debug (s_connection_config self) then
        ret (self\<lparr>s_sandbox_id := ''debug_sandbox_id'',
                  s_envd_version := Assigned None, s_envd_access_token := None,
                  s_ssh_host := Some ''127.0.0.1'', s_ssh_port := Some 22,
                  s_ssh_username := Some ''debug'', s_ssh_password := Some ''debug''\<rparr>)
      else case o_sandbox_id opts of
        Some sandbox_id \<Rightarrow>
          and_then
            (call (api_get_info env sandbox_id
               (get_api_params env (s_connection_config self) no_params)))
            (\<lambda>response. ret (self\<lparr>
               s_sandbox_id := sandbox_id,
               s_envd_version :=
                 (if s_envd_version self = Assigned None
                  then Assigned (i_envd_version response) else s_envd_version self),
               s_envd_access_token :=
                 (if s_envd_access_token self = None
                  then i_envd_access_token response else s_envd_access_token self),
               s_connection_config :=
                 (case i_envd_access_token response of
                    None \<Rightarrow> s_connection_config self
                  | Some token \<Rightarrow> set_access_token_header token (s_connection_config self))\<rparr>))
      | None \<Rightarrow>
          and_then
            (call (api_create_sandbox env
               (str_or template (default_template env))
               (int_or timeout (default_sandbox_timeout env))
               False metadata envs (secure = Some True) (o_api opts)))
            (\<lambda>response. ret (self\<lparr>
               s_sandbox_id := r_sandbox_id response,
               s_envd_version :=
                 (if s_envd_version self = Assigned None
                  then Assigned (r_envd_version response) else s_envd_version self),
               s_envd_access_token :=
                 (case r_envd_access_token response of
                    None \<Rightarrow> s_envd_access_token self
                  | Some token \<Rightarrow>
                      if s_envd_access_token self = None then Some token
                      else s_envd_access_token self),
               s_connection_config :=
                 (case r_envd_access_token response of
                    None \<Rightarrow> s_connection_config self
                  | Some token \<Rightarrow> set_access_token_header token (s_connection_config self))\<rparr>)))"

text \<open>The version the synchronous constructor hands to \<^verbatim>\<open>Filesystem\<close>; it has assigned
  the attribute before.\<close>

definition envd_version_of :: "session \<Rightarrow> version option" where
  "envd_version_of self = (case s_envd_version self of Assigned v \<Rightarrow> v | Unassigned \<Rightarrow> None)"

definition init_surfaces :: "'w env \<Rightarrow> session \<Rightarrow> ('w, session) io" where
  "init_surfaces env self0 =
     and_then (new_transport SandboxApiBase_limits (cc_proxy (s_connection_config self0)))
       (\<lambda>tr.
          let self = self0\<lparr>s_transport := Some tr\<rparr>;
              cfg = s_connection_config self
          in if is_brd (s_sandbox_id self) then
               and_then
                 (call (api_get_ssh env (s_sandbox_id self) (get_api_params env cfg no_params)))
                 (\<lambda>ssh_info.
                    case parse_connect_command (connect_command ssh_info) of
                      None \<Rightarrow> raise (PyException ''Could not parse SSH connection details'')
                    | Some (port, username, host) \<Rightarrow>
                        let watch_commands =
                              SSHCommands2 (Some host) (Some port) (Some username)
                                (Some (auth_password ssh_info)) cfg;
                            commands =
                              SSHCommands2 (Some host) (Some port) (Some username)
                                (Some (auth_password ssh_info)) cfg
                        in ret (self\<lparr>
                             s_ssh_port := Some port, s_ssh_username := Some username,
                             s_ssh_host := Some host,
                             s_ssh_password := Some (auth_password ssh_info),
                             s_watch_commands := Some watch_commands,
                             s_commands := Some commands,
                             s_filesystem :=
                               Some (SSHSyncFilesystem (Some host) (Some port) (Some username)
                                 (Some (auth_password ssh_info)) cfg commands watch_commands),
                             s_adb_shell := Some (ADBShell cfg (s_sandbox_id self))\<rparr>))
             else
               let url = envd_url env (s_sandbox_id self) cfg;
                   envd_api = \<lparr>c_base_url = url, c_transport = tr, c_headers = cc_headers cfg\<rparr>
               in ret (self\<lparr>
                    s_envd_api_url := Some url,
                    s_envd_api := Some envd_api,
                    s_filesystem :=
                      Some (Filesystem url (envd_version_of self) cfg (t_pool tr) envd_api),
                    s_commands := Some (Commands url cfg (t_pool tr)),
                    s_pty := Some (Pty url cfg (t_pool tr))\<rparr>))"

definition Sandbox_init ::
  "'w env \<Rightarrow> string option \<Rightarrow> int option \<Rightarrow> (string \<times> string) list option \<Rightarrow>
   (string \<times> string) list option \<Rightarrow> bool option \<Rightarrow> sandbox_opts \<Rightarrow> ('w, session) io" where
  "Sandbox_init env template timeout metadata envs secure opts =
     (if (case o_sandbox_id opts of None \<Rightarrow> False | Some sandbox_id \<Rightarrow> sandbox_id \<noteq> [])
         \<and> (metadata \<noteq> None \<or> template \<noteq> None)
      then raise (SandboxException
        (''Cannot set metadata or timeout when connecting to an existing sandbox. '' @
         ''Use Sandbox.connect method instead.''))
      else
        and_then
          (init_identity env template timeout metadata envs secure opts
             (init_from_opts opts
                (case o_connection_config opts of
                   Some connection_config \<Rightarrow> connection_config
                 | None \<Rightarrow> ConnectionConfig env None (o_api opts))))
          (init_surfaces env))"

text \<open>\<^verbatim>\<open>cls(sandbox_id=..., ...)\<close> as the class methods call it: keyword arguments only.\<close>

definition Sandbox_cls :: "'w env \<Rightarrow> sandbox_opts \<Rightarrow> ('w, session) io" where
  "Sandbox_cls env opts = Sandbox_init env None None None None None opts"

section \<open>The asynchronous constructor\<close>

text \<open>
  \<^verbatim>\<open>AsyncSandbox.__init__\<close> (sandbox\_async/main.py). It makes no call over the network;
  the transport is made on the HTTP path only, and \<^verbatim>\<open>_envd_version\<close> is assigned only
  when the keyword argument is not \<^verbatim>\<open>None\<close>.
\<close>

definition read_envd_version :: "'w env \<Rightarrow> session \<Rightarrow> error + version option" where
  "read_envd_version env self =
     (case s_envd_version self of
        Assigned v \<Rightarrow> Inr v
      | Unassigned \<Rightarrow>
          (case class_envd_version env of
             Some v \<Rightarrow> Inr v
           | None \<Rightarrow> Inl (AttributeError ''_envd_version'')))"

definition AsyncSandbox_init :: "'w env \<Rightarrow> sandbox_opts \<Rightarrow> ('w, session) io" where
  "AsyncSandbox_init env opts =
     (case o_sandbox_id opts of
        None \<Rightarrow> raise (KeyError ''sandbox_id'')
      | Some sandbox_id \<Rightarrow>
     (case o_connection_config opts of
        None \<Rightarrow> raise (KeyError ''connection_config'')
      | Some cfg \<Rightarrow>
          let url = envd_url env sandbox_id cfg;
              self =
                \<lparr>s_sandbox_id = sandbox_id, s_connection_config = cfg,
                 s_envd_version =
                   (case o_envd_version opts of
                      None \<Rightarrow> Unassigned | Some v \<Rightarrow> Assigned (Some v)),
                 s_envd_access_token = o_envd_access_token opts,
                 s_ssh_host = o_ssh_host opts, s_ssh_port = o_ssh_port opts,
                 s_ssh_username = o_ssh_username opts, s_ssh_password = o_ssh_password opts,
                 s_transport = None, s_envd_api_url = Some url, s_envd_api = None,
                 s_filesystem = None, s_commands = None, s_watch_commands = None,
                 s_pty = None, s_adb_shell = None\<rparr>
          in if is_brd sandbox_id then
               let commands =
                     SSHCommands2 (s_ssh_host self) (s_ssh_port self) (s_ssh_username self)
                       (s_ssh_password self) cfg;
                   watch_commands =
                     SSHCommands2 (s_ssh_host self) (s_ssh_port self) (s_ssh_username self)
                       (s_ssh_password self) cfg
               in ret (self\<lparr>
                    s_commands := Some commands,
                    s_watch_commands := Some watch_commands,
                    s_filesystem :=
                      Some (SSHFilesystem (s_ssh_host self) (s_ssh_port self)
                        (s_ssh_username self) (s_ssh_password self) cfg commands watch_commands),
                    s_adb_shell := Some (ADBShell cfg sandbox_id)\<rparr>)
             else
               and_then (new_transport SandboxApiBase_limits (cc_proxy cfg))
                 (\<lambda>tr.
                    let envd_api =
                          \<lparr>c_base_url = url, c_transport = tr, c_headers = cc_headers cfg\<rparr>
                    in and_then (\<lambda>st. (read_envd_version env self, st))
                         (\<lambda>v. ret (self\<lparr>
                            s_transport := Some tr,
                            s_envd_api := Some envd_api,
                            s_filesystem := Some (Filesystem url v cfg (t_pool tr) envd_api),
                            s_commands := Some (Commands url cfg (t_pool tr)),
                            s_pty := Some (Pty url cfg (t_pool tr))\<rparr>)))))"

section \<open>Create, connect and resume\<close>

definition token_headers :: "string option \<Rightarrow> (string \<times> string) list" where
  "token_headers envd_access_token =
     (case envd_access_token of None \<Rightarrow> [] | Some token \<Rightarrow> [(''X-Access-Token'', token)])"

text \<open>
  The second half of \<^verbatim>\<open>_create\<close>, the same text in both modules: the configuration with
  the extra headers, then the constructor \<open>cls\<close>, for a marked identity after the SSH
  credentials were fetched and parsed.
\<close>

definition create_session ::
  "('w env \<Rightarrow> sandbox_opts \<Rightarrow> ('w, session) io) \<Rightarrow> 'w env \<Rightarrow> string \<Rightarrow> version option \<Rightarrow>
   string option \<Rightarrow> (string \<times> string) list \<Rightarrow> api_params \<Rightarrow> ('w, session) io" where
  "create_session cls env sandbox_id envd_version envd_access_token extra_sandbox_headers opts =
     (let connection_config = ConnectionConfig env (Some extra_sandbox_headers) opts
      in if is_brd sandbox_id then
           and_then
             (call (api_get_ssh env sandbox_id (get_api_params env connection_config no_params)))
             (\<lambda>ssh_info.
                case parse_connect_command (connect_command ssh_info) of
                  None \<Rightarrow> raise (PyException ''Could not parse SSH connection details'')
                | Some (ssh_port, ssh_username, ssh_host) \<Rightarrow>
                    cls env (no_opts\<lparr>
                      o_sandbox_id := Some sandbox_id,
                      o_connection_config := Some connection_config,
                      o_envd_version := envd_version,
                      o_envd_access_token := envd_access_token,
                      o_ssh_host := Some ssh_host, o_ssh_port := Some ssh_port,
                      o_ssh_username := Some ssh_username,
                      o_ssh_password := Some (auth_password ssh_info)\<rparr>))
         else
           cls env (no_opts\<lparr>
             o_sandbox_id := Some sandbox_id,
             o_connection_config := Some connection_config,
             o_envd_version := envd_version,
             o_envd_access_token := envd_access_token\<rparr>))"

text \<open>\<^verbatim>\<open>Sandbox._create\<close>: \<^verbatim>\<open>Version(response.envd_version)\<close> is applied whatever the
  answer holds, and raises on \<^verbatim>\<open>None\<close>.\<close>

definition Sandbox_create ::
  "'w env \<Rightarrow> string option \<Rightarrow> int option \<Rightarrow> bool \<Rightarrow> (string \<times> string) list option \<Rightarrow>
   (string \<times> string) list option \<Rightarrow> bool \<Rightarrow> api_params \<Rightarrow> ('w, session) io" where
  "Sandbox_create env template timeout auto_pause metadata envs secure opts =
     (if p_debug opts = Some True then
        create_session Sandbox_cls env ''debug_sandbox_id'' None None [] opts
      else
        and_then
          (call (api_create_sandbox env
             (str_or template (default_template env))
             (int_or timeout (default_sandbox_timeout env))
             auto_pause metadata envs secure opts))
          (\<lambda>response.
             case r_envd_version response of
               None \<Rightarrow> raise (TypeError ''expected string or bytes-like object'')
             | Some v \<Rightarrow>
                 create_session Sandbox_cls env (r_sandbox_id response) (Some v)
                   (r_envd_access_token response)
                   (token_headers (r_envd_access_token response)) opts))"

definition AsyncSandbox_create ::
  "'w env \<Rightarrow> string option \<Rightarrow> int option \<Rightarrow> bool \<Rightarrow> (string \<times> string) list option \<Rightarrow>
   (string \<times> string) list option \<Rightarrow> bool \<Rightarrow> api_params \<Rightarrow> ('w, session) io" where
  "AsyncSandbox_create env template timeout auto_pause metadata envs secure opts =
     (if p_debug opts = Some True then
        create_session AsyncSandbox_init env ''debug_sandbox_id'' None None [] opts
      else
        and_then
          (call (api_create_sandbox env
             (str_or template (default_template env))
             (int_or timeout (default_sandbox_timeout env))
             auto_pause metadata envs secure opts))
          (\<lambda>response.
             create_session AsyncSandbox_init env (r_sandbox_id response)
               (r_envd_version response) (r_envd_access_token response)
               (token_headers (r_envd_access_token response)) opts))"

text \<open>\<^verbatim>\<open>beta_create\<close> of both classes, and \<^verbatim>\<open>AsyncSandbox.create\<close>.\<close>

definition Sandbox_beta_create ::
  "'w env \<Rightarrow> string option \<Rightarrow> int option \<Rightarrow> bool \<Rightarrow> (string \<times> string) list option \<Rightarrow>
   (string \<times> string) list option \<Rightarrow> bool option \<Rightarrow> api_params \<Rightarrow> ('w, session) io" where
  "Sandbox_beta_create env template timeout auto_pause metadata envs secure opts =
     Sandbox_create env (Some (str_or template (default_template env))) timeout auto_pause
       metadata envs (secure = Some True) opts"

definition AsyncSandbox_beta_create ::
  "'w env \<Rightarrow> string option \<Rightarrow> int option \<Rightarrow> bool \<Rightarrow> (string \<times> string) list option \<Rightarrow>
   (string \<times> string) list option \<Rightarrow> bool option \<Rightarrow> api_params \<Rightarrow> ('w, session) io" where
  "AsyncSandbox_beta_create env template timeout auto_pause metadata envs secure opts =
     AsyncSandbox_create env (Some (str_or template (default_template env))) timeout auto_pause
       metadata envs (secure = Some True) opts"

definition AsyncSandbox_create_new ::
  "'w env \<Rightarrow> string option \<Rightarrow> int option \<Rightarrow> (string \<times> string) list option \<Rightarrow>
   (string \<times> string) list option \<Rightarrow> bool option \<Rightarrow> api_params \<Rightarrow> ('w, session) io" where
  "AsyncSandbox_create_new env template timeout metadata envs secure opts =
     AsyncSandbox_create env template timeout False metadata envs (secure = Some True) opts"

text \<open>
  \<^verbatim>\<open>_cls_connect\<close> and \<^verbatim>\<open>_cls_resume\<close>. The two modules hold the same text up to
  \<^verbatim>\<open>await\<close>; \<open>cls\<close> is the class the method is called on.
\<close>

definition cls_connect ::
  "('w env \<Rightarrow> sandbox_opts \<Rightarrow> ('w, session) io) \<Rightarrow> 'w env \<Rightarrow> string \<Rightarrow> int option \<Rightarrow>
   api_params \<Rightarrow> ('w, session) io" where
  "cls_connect cls env sandbox_id timeout opts =
     (if is_brd sandbox_id then
        and_then (call (api_get_info env sandbox_id opts))
          (\<lambda>sandbox_info.
             let connection_config = ConnectionConfig env None opts
             in and_then (call (api_get_ssh env sandbox_id opts))
                  (\<lambda>ssh_info.
                     case parse_connect_command (connect_command ssh_info) of
                       None \<Rightarrow> raise (PyException ''Could not parse SSH connection details'')
                     | Some (ssh_port, ssh_username, ssh_host) \<Rightarrow>
                         cls env (no_opts\<lparr>
                           o_sandbox_id := Some sandbox_id,
                           o_envd_version := i_envd_version sandbox_info,
                           o_envd_access_token := i_envd_access_token sandbox_info,
                           o_connection_config := Some connection_config,
                           o_ssh_host := Some ssh_host, o_ssh_port := Some ssh_port,
                           o_ssh_username := Some ssh_username,
                           o_ssh_password := Some (auth_password ssh_info)\<rparr>)))
      else
        and_then
          (call (api_connect env sandbox_id (int_or timeout (default_sandbox_timeout env)) opts))
          (\<lambda>sandbox.
             let envd_access_token = n_envd_access_token sandbox;
                 connection_config =
                   ConnectionConfig env (Some (token_headers envd_access_token)) opts
             in cls env (no_opts\<lparr>
                  o_sandbox_id := Some sandbox_id,
                  o_connection_config := Some connection_config,
                  o_envd_version := n_envd_version sandbox,
                  o_envd_access_token := envd_access_token\<rparr>)))"

definition cls_resume ::
  "('w env \<Rightarrow> sandbox_opts \<Rightarrow> ('w, session) io) \<Rightarrow> 'w env \<Rightarrow> string \<Rightarrow> bool \<Rightarrow> int option \<Rightarrow>
   api_params \<Rightarrow> ('w, session) io" where
  "cls_resume cls env sandbox_id auto_pause timeout opts =
     (if is_brd sandbox_id then
        and_then (call (api_get_info env sandbox_id opts))
          (\<lambda>sandbox_info.
             let connection_config = ConnectionConfig env None opts
             in and_then (call (api_get_ssh env sandbox_id opts))
                  (\<lambda>ssh_info.
                     case parse_connect_command (connect_command ssh_info) of
                       None \<Rightarrow> raise (PyException ''Could not parse SSH connection details'')
                     | Some (ssh_port, ssh_username, ssh_host) \<Rightarrow>
                         cls env (no_opts\<lparr>
                           o_sandbox_id := Some sandbox_id,
                           o_envd_version := i_envd_version sandbox_info,
                           o_envd_access_token := i_envd_access_token sandbox_info,
                           o_connection_config := Some connection_config,
                           o_ssh_host := Some ssh_host, o_ssh_port := Some ssh_port,
                           o_ssh_username := Some ssh_username,
                           o_ssh_password := Some (auth_password ssh_info)\<rparr>)))
      else
        and_then
          (call (api_resume env sandbox_id auto_pause
             (int_or timeout (default_sandbox_timeout env)) opts))
          (\<lambda>sandbox.
             let envd_access_token = n_envd_access_token sandbox;
                 connection_config =
                   ConnectionConfig env (Some (token_headers envd_access_token)) opts
             in cls env (no_opts\<lparr>
                  o_sandbox_id := Some sandbox_id,
                  o_connection_config := Some connection_config,
                  o_envd_version := n_envd_version sandbox,
                  o_envd_access_token := envd_access_token\<rparr>)))"

definition Sandbox_cls_connect ::
  "'w env \<Rightarrow> string \<Rightarrow> int option \<Rightarrow> api_params \<Rightarrow> ('w, session) io" where
  "Sandbox_cls_connect = cls_connect Sandbox_cls"

definition Sandbox_cls_resume ::
  "'w env \<Rightarrow> string \<Rightarrow> bool \<Rightarrow> int option \<Rightarrow> api_params \<Rightarrow> ('w, session) io" where
  "Sandbox_cls_resume = cls_resume Sandbox_cls"

definition AsyncSandbox_cls_connect ::
  "'w env \<Rightarrow> string \<Rightarrow> int option \<Rightarrow> api_params \<Rightarrow> ('w, session) io" where
  "AsyncSandbox_cls_connect = cls_connect AsyncSandbox_init"

definition AsyncSandbox_cls_resume ::
  "'w env \<Rightarrow> string \<Rightarrow> bool \<Rightarrow> int option \<Rightarrow> api_params \<Rightarrow> ('w, session) io" where
  "AsyncSandbox_cls_resume = cls_resume AsyncSandbox_init"

section \<open>Operations of a session\<close>

text \<open>
  The methods of \<^verbatim>\<open>Sandbox\<close> and of \<^verbatim>\<open>AsyncSandbox\<close> have the same bodies up to
  \<^verbatim>\<open>await\<close>; each is modelled once. None of them assigns to an attribute of the session.
\<close>

text \<open>
  Modelled from the spec: \<^verbatim>\<open>format_request_timeout_error\<close> of \<^verbatim>\<open>agentbox.exceptions\<close>
  is not among the source files. The spec: a timeout on the probe is translated into a
  distinguished timeout error type, never a generic network error.
\<close>

definition format_request_timeout_error :: error where
  "format_request_timeout_error = TimeoutException ''Request timed out''"

definition is_running :: "'w env \<Rightarrow> session \<Rightarrow> nat option \<Rightarrow> ('w, bool) io" where
  "is_running env self request_timeout =
     (case s_envd_api self of
        None \<Rightarrow> ret True
      | Some envd_api \<Rightarrow>
          (\<lambda>st.
             case send env
                    (client_get envd_api (ENVD_API_HEALTH_ROUTE env)
                       (get_request_timeout env (s_connection_config self) request_timeout))
                    st of
               (TimedOut, st') \<Rightarrow> (Inl format_request_timeout_error, st')
             | (Failed e, st') \<Rightarrow> (Inl e, st')
             | (Responded r, st') \<Rightarrow>
                 if status_code r = 502 then (Inr False, st')
                 else (case handle_envd_api_exception env r of
                         Some err \<Rightarrow> (Inl err, st')
                       | None \<Rightarrow> (Inr True, st'))))"

definition kill :: "'w env \<Rightarrow> session \<Rightarrow> api_params \<Rightarrow> ('w, bool) io" where
  "kill env self opts =
     call (api_kill env (s_sandbox_id self) (get_api_params env (s_connection_config self) opts))"

definition set_timeout :: "'w env \<Rightarrow> session \<Rightarrow> int \<Rightarrow> api_params \<Rightarrow> ('w, unit) io" where
  "set_timeout env self timeout opts =
     call (api_set_timeout env (s_sandbox_id self) timeout
       (get_api_params env (s_connection_config self) opts))"



text \<open>\<^verbatim>\<open>x and x < Version(...)\<close>: a version object is true, \<^verbatim>\<open>None\<close> is false.\<close>

definition below :: "version option \<Rightarrow> version \<Rightarrow> bool" where
  "below v bound = (case v of None \<Rightarrow> False | Some ver \<Rightarrow> version_lt ver bound)"

definition get_metrics ::
  "'w env \<Rightarrow> session \<Rightarrow> nat option \<Rightarrow> nat option \<Rightarrow> api_params \<Rightarrow>
   ('w, sandbox_metrics list) io" where
  "get_metrics env self start end_time opts =
     and_then (\<lambda>st. (read_envd_version env self, st))
       (\<lambda>envd_version.
          if below envd_version [0, 1, 5] then
            raise (SandboxException
              (''Metrics are not supported in this version of the sandbox, '' @
               ''please rebuild your template.''))
          else
            and_then
              (if below envd_version [0, 2, 4] then
                 log_warning
                   (''Disk metrics are not supported in this version of the sandbox, '' @
                    ''please rebuild the template to get disk metrics.'')
               else ret ())
              (\<lambda>_. call (api_get_metrics env (s_sandbox_id self) start end_time
                      (get_api_params env (s_connection_config self) opts))))"

text \<open>The instance variants of connect and resume hand the session's identity on.\<close>

definition Sandbox_connect ::
  "'w env \<Rightarrow> session \<Rightarrow> int option \<Rightarrow> api_params \<Rightarrow> ('w, session) io" where
  "Sandbox_connect env self timeout opts =
     Sandbox_cls_connect env (s_sandbox_id self) timeout
       (get_api_params env (s_connection_config self) opts)"

definition Sandbox_resume ::
  "'w env \<Rightarrow> session \<Rightarrow> bool \<Rightarrow> int option \<Rightarrow> api_params \<Rightarrow> ('w, session) io" where
  "Sandbox_resume env self auto_pause timeout opts =
     Sandbox_cls_resume env (s_sandbox_id self) auto_pause timeout
       (get_api_params env (s_connection_config self) opts)"

definition AsyncSandbox_connect ::
  "'w env \<Rightarrow> session \<Rightarrow> int option \<Rightarrow> api_params \<Rightarrow> ('w, session) io" where
  "AsyncSandbox_connect env self timeout opts =
     AsyncSandbox_cls_connect env (s_sandbox_id self) timeout
       (get_api_params env (s_connection_config self) opts)"

definition AsyncSandbox_resume ::
  "'w env \<Rightarrow> session \<Rightarrow> bool \<Rightarrow> int option \<Rightarrow> api_params \<Rightarrow> ('w, session) io" where
  "AsyncSandbox_resume env self auto_pause timeout opts =
     AsyncSandbox_cls_resume env (s_sandbox_id self) auto_pause timeout
       (get_api_params env (s_connection_config self) opts)"

section \<open>Every way to construct a session\<close>

datatype construction =
    New_Sandbox "string option" "int option" "(string \<times> string) list option"
      "(string \<times> string) list option" "bool option" sandbox_opts
  | Sandbox_Beta_Create "string option" "int option" bool "(string \<times> string) list option"
      "(string \<times> string) list option" "bool option" api_params
  | Sandbox_Connect string "int option" api_params
  | Sandbox_Resume string bool "int option" api_params
  | New_AsyncSandbox sandbox_opts
  | AsyncSandbox_Create "string option" "int option" "(string \<times> string) list option"
      "(string \<times> string) list option" "bool option" api_params
  | AsyncSandbox_Beta_Create "string option" "int option" bool "(string \<times> string) list option"
      "(string \<times> string) list option" "bool option" api_params
  | AsyncSandbox_Connect string "int option" api_params
  | AsyncSandbox_Resume string bool "int option" api_params

fun construct :: "'w env \<Rightarrow> construction \<Rightarrow> ('w, session) io" where
  "construct env (New_Sandbox template timeout metadata envs secure opts) =
     Sandbox_init env template timeout metadata envs secure opts"
| "construct env (Sandbox_Beta_Create template timeout auto_pause metadata envs secure opts) =
     Sandbox_beta_create env template timeout auto_pause metadata envs secure opts"
| "construct env (Sandbox_Connect sandbox_id timeout opts) =
     Sandbox_cls_connect env sandbox_id timeout opts"
| "construct env (Sandbox_Resume sandbox_id auto_pause timeout opts) =
     Sandbox_cls_resume env sandbox_id auto_pause timeout opts"
| "construct env (New_AsyncSandbox opts) = AsyncSandbox_init env opts"
| "construct env (AsyncSandbox_Create template timeout metadata envs secure opts) =
     AsyncSandbox_create_new env template timeout metadata envs secure opts"
| "construct env (AsyncSandbox_Beta_Create template timeout auto_pause metadata envs secure opts) =
     AsyncSandbox_beta_create env template timeout auto_pause metadata envs secure opts"
| "construct env (AsyncSandbox_Connect sandbox_id timeout opts) =
     AsyncSandbox_cls_connect env sandbox_id timeout opts"
| "construct env (AsyncSandbox_Resume sandbox_id auto_pause timeout opts) =
     AsyncSandbox_cls_resume env sandbox_id auto_pause timeout opts"

text \<open>The two sets of execution surfaces, read off the attributes of a session.\<close>

fun over_ssh :: "commands option \<Rightarrow> bool" where
  "over_ssh (Some (SSHCommands2 h p u w cfg)) = True"
| "over_ssh _ = False"

fun over_http :: "commands option \<Rightarrow> bool" where
  "over_http (Some (Commands url cfg pool)) = True"
| "over_http _ = False"

fun files_over_ssh :: "filesystem option \<Rightarrow> bool" where
  "files_over_ssh (Some (SSHSyncFilesystem h p u w cfg c wc)) = True"
| "files_over_ssh (Some (SSHFilesystem h p u w cfg c wc)) = True"
| "files_over_ssh _ = False"

fun files_over_http :: "filesystem option \<Rightarrow> bool" where
  "files_over_http (Some (Filesystem url v cfg pool client)) = True"
| "files_over_http _ = False"

definition ssh_surfaces :: "session \<Rightarrow> bool" where
  "ssh_surfaces s =
     (over_ssh (s_commands s) \<and> over_ssh (s_watch_commands s) \<and>
      files_over_ssh (s_filesystem s) \<and> s_adb_shell s \<noteq> None \<and>
      s_envd_api s = None \<and> s_pty s = None)"

definition http_surfaces :: "session \<Rightarrow> bool" where
  "http_surfaces s =
     (s_envd_api s \<noteq> None \<and> files_over_http (s_filesystem s) \<and>
      over_http (s_commands s) \<and> s_pty s \<noteq> None \<and>
      s_watch_commands s = None \<and> s_adb_shell s = None)"

definition backend_chosen :: "session \<Rightarrow> bool" where
  "backend_chosen s =
     (if is_brd (s_sandbox_id s) then ssh_surfaces s \<and> \<not> http_surfaces s
      else http_surfaces s \<and> \<not> ssh_surfaces s)"

text \<open>
  The SSH endpoint of a session is the one parsed from the answer \<open>ssh\<close> of the control
  plane: port, username and host from its connect command, and its password.
\<close>

definition endpoint_from :: "session \<Rightarrow> ssh_info \<Rightarrow> bool" where
  "endpoint_from s ssh =
     (case parse_connect_command (connect_command ssh) of
        None \<Rightarrow> False
      | Some (port, username, host) \<Rightarrow>
          s_ssh_port s = Some port \<and> s_ssh_username s = Some username \<and>
          s_ssh_host s = Some host \<and> s_ssh_password s = Some (auth_password ssh))"


section \<open>Sequences of operations on one session\<close>




section \<open>The access-token header\<close>





section \<open>The control plane as the specification describes it\<close>

text \<open>
  The identities the control plane knows, the auto-kill deadline of each, and its clock.
\<close>

record control_plane =
  sandboxes :: "string set"
  deadline :: "string \<Rightarrow> int option"
  now :: int

text \<open>
  Modelled from the spec: \<^verbatim>\<open>SandboxApi._cls_kill\<close> (sandbox\_sync/sandbox\_api.py and
  sandbox\_async/sandbox\_api.py) is not among the source files. The spec: the control
  plane returns a boolean indicating whether a sandbox was actually found and killed;
  calling kill on an already-killed identity is not an error, it reports false.
\<close>

definition cls_kill ::
  "string \<Rightarrow> api_params \<Rightarrow> control_plane \<Rightarrow> (error + bool) \<times> control_plane" where
  "cls_kill sandbox_id opts cp =
     (if sandbox_id \<in> sandboxes cp
      then (Inr True, cp\<lparr>sandboxes := sandboxes cp - {sandbox_id}\<rparr>)
      else (Inr False, cp))"

text \<open>
  Modelled from the spec: \<^verbatim>\<open>SandboxApi._cls_set_timeout\<close> (same files) is not among the
  source files. The spec: it updates the remote auto-kill deadline, can both extend and
  shrink the previously set deadline, and the new deadline always fully replaces the
  previous one (no additive semantics).
\<close>

definition cls_set_timeout ::
  "string \<Rightarrow> int \<Rightarrow> api_params \<Rightarrow> control_plane \<Rightarrow> (error + unit) \<times> control_plane" where
  "cls_set_timeout sandbox_id timeout opts cp =
     (Inr (), cp\<lparr>deadline := (deadline cp)(sandbox_id \<mapsto> now cp + timeout)\<rparr>)"

text \<open>Time passing at the control plane between two calls.\<close>

definition elapse :: "int \<Rightarrow> control_plane process \<Rightarrow> control_plane process" where
  "elapse d st = st\<lparr>remote := (remote st)\<lparr>now := now (remote st) + d\<rparr>\<rparr>"

section \<open>A sample environment\<close>

text \<open>
  One environment on which the model is run at concrete inputs. What is reached over the
  network is the list of the calls made so far; the answers are fixed.
\<close>

definition sample_info :: "string \<Rightarrow> sandbox_info" where
  "sample_info sandbox_id =
     \<lparr>i_sandbox_id = sandbox_id, i_template_id = ''base'', i_name = None, i_metadata = [],
      i_started_at = 0, i_end_at = 300, i_envd_version = Some [0, 2, 0],
      i_envd_access_token = Some ''token-1''\<rparr>"

definition sample_env :: "string list env" where
  "sample_env =
     \<lparr>default_template = ''base'',
      default_sandbox_timeout = 300,
      envd_port = 49983,
      get_host = (\<lambda>sandbox_id cfg port. ''49983-'' @ sandbox_id @ ''.agentbox.cloud''),
      class_envd_version = None,
      ConnectionConfig =
        (\<lambda>extra opts. \<lparr>cc_debug = (p_debug opts = Some True), cc_proxy = p_proxy opts,
           cc_headers = (case extra of None \<Rightarrow> [] | Some hs \<Rightarrow> hs)\<rparr>),
      get_api_params = (\<lambda>cfg opts. opts),
      get_request_timeout = (\<lambda>cfg t. t),
      api_create_sandbox =
        (\<lambda>template timeout auto_pause metadata envs secure opts w.
           (Inr \<lparr>r_sandbox_id = ''sbx-1'', r_envd_version = Some [0, 2, 0],
                 r_envd_access_token = Some ''token-1''\<rparr>, w @ [''create''])),
      api_get_info = (\<lambda>sandbox_id opts w. (Inr (sample_info sandbox_id), w @ [''get_info''])),
      api_get_ssh =
        (\<lambda>sandbox_id opts w.
           (Inr \<lparr>connect_command = ''ssh -p 2222 user@10.0.0.5'', auth_password = ''secret''\<rparr>,
            w @ [''get_ssh''])),
      api_connect =
        (\<lambda>sandbox_id timeout opts w.
           (Inr \<lparr>n_envd_version = Some [0, 2, 0], n_envd_access_token = Some ''token-1''\<rparr>,
            w @ [''connect''])),
      api_resume =
        (\<lambda>sandbox_id auto_pause timeout opts w.
           (Inr \<lparr>n_envd_version = Some [0, 2, 0], n_envd_access_token = Some ''token-1''\<rparr>,
            w @ [''resume''])),
      api_pause = (\<lambda>sandbox_id opts w. (Inr True, w @ [''pause''])),
      api_kill = (\<lambda>sandbox_id opts w. (Inr True, w @ [''kill''])),
      api_set_timeout = (\<lambda>sandbox_id timeout opts w. (Inr (), w @ [''set_timeout''])),
      api_get_metrics = (\<lambda>sandbox_id start end_time opts w. (Inr [], w @ [''get_metrics''])),
      ENVD_API_HEALTH_ROUTE = ''/health'',
      envd_send =
        (\<lambda>q w. (Responded \<lparr>status_code = 204, body = []\<rparr>, w @ [''health''])),
      handle_envd_api_exception =
        (\<lambda>r. if status_code r < 300 then None else Some (SandboxException (body r)))\<rparr>"

definition new_process :: "string list process" where
  "new_process = \<lparr>remote = [], pools = 0, warnings = [], sent = []\<rparr>"

text \<open>A session of each kind, as the sample environment constructs it.\<close>

definition sample_config :: connection_config where
  "sample_config = \<lparr>cc_debug = False, cc_proxy = None, cc_headers = []\<rparr>"

definition sample_client :: envd_client where
  "sample_client =
     \<lparr>c_base_url = ''https://49983-sbx-1.agentbox.cloud'',
      c_transport = \<lparr>t_pool = 0, t_limits = SandboxApiBase_limits, t_proxy = None\<rparr>,
      c_headers = []\<rparr>"

definition sample_session :: "version option \<Rightarrow> session" where
  "sample_session v =
     \<lparr>s_sandbox_id = ''sbx-1'', s_connection_config = sample_config,
      s_envd_version = Assigned v, s_envd_access_token = None,
      s_ssh_host = None, s_ssh_port = None, s_ssh_username = None, s_ssh_password = None,
      s_transport = None, s_envd_api_url = None, s_envd_api = Some sample_client,
      s_filesystem = None, s_commands = None, s_watch_commands = None, s_pty = None,
      s_adb_shell = None\<rparr>"

text \<open>The sample environment with another answer of the execution daemon.\<close>

definition probe_env :: "probe_outcome \<Rightarrow> string list env" where
  "probe_env outcome = sample_env\<lparr>envd_send := (\<lambda>q w. (outcome, w @ [''health'']))\<rparr>"

text \<open>The sample environment with a connect command that lacks the \<^verbatim>\<open>@\<close>.\<close>

definition unparsable_env :: "string list env" where
  "unparsable_env =
     sample_env\<lparr>api_get_ssh :=
       (\<lambda>sandbox_id opts w.
          (Inr \<lparr>connect_command = ''ssh -p 2222 user10.0.0.5'', auth_password = ''secret''\<rparr>,
           w @ [''get_ssh'']))\<rparr>"

section \<open>Notions used in the proofs\<close>

text \<open>Before the constructor chooses the surfaces, none of them is assigned.\<close>

definition blank :: "session \<Rightarrow> bool" where
  "blank self =
     (s_envd_api self = None \<and> s_pty self = None \<and> s_watch_commands self = None \<and>
      s_adb_shell self = None \<and> s_transport self = None)"

text \<open>The SSH endpoint among the keyword arguments is the one parsed from \<open>ssh\<close>.\<close>

definition opts_endpoint :: "sandbox_opts \<Rightarrow> ssh_info \<Rightarrow> bool" where
  "opts_endpoint opts ssh =
     (case parse_connect_command (connect_command ssh) of
        None \<Rightarrow> False
      | Some (port, username, host) \<Rightarrow>
          o_ssh_port opts = Some port \<and> o_ssh_username opts = Some username \<and>
          o_ssh_host opts = Some host \<and> o_ssh_password opts = Some (auth_password ssh))"

text \<open>
  A class method returns the session \<open>s\<close> in the state \<open>st'\<close> by calling the constructor
  \<open>cls\<close> for the identity \<open>sandbox_id\<close>, with \<open>n\<close> pools made before; for a marked
  identity the endpoint it hands over was parsed from an answer of the control plane.
\<close>

definition reaches ::
  "('w env \<Rightarrow> sandbox_opts \<Rightarrow> ('w, session) io) \<Rightarrow> 'w env \<Rightarrow> string \<Rightarrow> nat \<Rightarrow> session \<Rightarrow>
   'w process \<Rightarrow> bool" where
  "reaches cls env sandbox_id n s st' =
     (\<exists>o' st1. cls env o' st1 = (Inr s, st') \<and> pools st1 = n \<and>
        o_sandbox_id o' = Some sandbox_id \<and>
        (is_brd sandbox_id \<longrightarrow>
           (\<exists>p w ssh w'. api_get_ssh env sandbox_id p w = (Inr ssh, w') \<and> opts_endpoint o' ssh)))"

text \<open>
  What holds of a session returned in the state \<open>st'\<close> by a construction that started
  with \<open>n\<close> pools: its surfaces follow the marker, and its transport, if it has one, has
  the class-level limits and a pool made during the construction.
\<close>

definition sound :: "nat \<Rightarrow> session \<Rightarrow> 'w process \<Rightarrow> bool" where
  "sound n s st' =
     (backend_chosen s \<and>
      (\<forall>tr. s_transport s = Some tr \<longrightarrow>
         t_limits tr = SandboxApiBase_limits \<and> n \<le> t_pool tr \<and> t_pool tr < pools st'))"


section \<open>Helper lemmas\<close>

lemma ret_simp: "ret x st = (Inr x, st)"
  by (simp add: ret_def)

lemma raise_simp: "raise e st = (Inl e, st)"
  by (simp add: raise_def)

lemma and_then_Inr:
  "and_then m k st = (Inr y, st') \<Longrightarrow> \<exists>x st1. m st = (Inr x, st1) \<and> k x st1 = (Inr y, st')"
  by (auto simp: and_then_def split: prod.splits sum.splits)

lemma call_local:
  "call f st = (r, st') \<Longrightarrow>
     pools st' = pools st \<and> warnings st' = warnings st \<and> sent st' = sent st \<and>
     (r, remote st') = f (remote st)"
  by (auto simp: call_def split: prod.splits)

lemma sample_env_simps:
  "default_template sample_env = ''base''"
  "default_sandbox_timeout sample_env = 300"
  "envd_port sample_env = 49983"
  "get_host sample_env sandbox_id cfg port = ''49983-'' @ sandbox_id @ ''.agentbox.cloud''"
  "class_envd_version sample_env = None"
  "ConnectionConfig sample_env extra opts =
     \<lparr>cc_debug = (p_debug opts = Some True), cc_proxy = p_proxy opts,
      cc_headers = (case extra of None \<Rightarrow> [] | Some hs \<Rightarrow> hs)\<rparr>"
  "get_api_params sample_env cfg opts = opts"
  "get_request_timeout sample_env cfg t = t"
  "api_create_sandbox sample_env template timeout auto_pause metadata envs secure opts w =
     (Inr \<lparr>r_sandbox_id = ''sbx-1'', r_envd_version = Some [0, 2, 0],
           r_envd_access_token = Some ''token-1''\<rparr>, w @ [''create''])"
  "api_get_info sample_env sandbox_id opts w = (Inr (sample_info sandbox_id), w @ [''get_info''])"
  "api_get_ssh sample_env sandbox_id opts w =
     (Inr \<lparr>connect_command = ''ssh -p 2222 user@10.0.0.5'', auth_password = ''secret''\<rparr>,
      w @ [''get_ssh''])"
  "api_connect sample_env sandbox_id timeout opts w =
     (Inr \<lparr>n_envd_version = Some [0, 2, 0], n_envd_access_token = Some ''token-1''\<rparr>,
      w @ [''connect''])"
  "api_resume sample_env sandbox_id auto_pause timeout opts w =
     (Inr \<lparr>n_envd_version = Some [0, 2, 0], n_envd_access_token = Some ''token-1''\<rparr>,
      w @ [''resume''])"
  "api_pause sample_env sandbox_id opts w = (Inr True, w @ [''pause''])"
  "api_kill sample_env sandbox_id opts w = (Inr True, w @ [''kill''])"
  "api_set_timeout sample_env sandbox_id timeout opts w = (Inr (), w @ [''set_timeout''])"
  "api_get_metrics sample_env sandbox_id start end_time opts w = (Inr [], w @ [''get_metrics''])"
  "ENVD_API_HEALTH_ROUTE sample_env = ''/health''"
  "envd_send sample_env q w = (Responded \<lparr>status_code = 204, body = []\<rparr>, w @ [''health''])"
  "handle_envd_api_exception sample_env r =
     (if status_code r < 300 then None else Some (SandboxException (body r)))"
  by (simp_all add: sample_env_def)

lemma parse_sample:
  "parse_connect_command ''ssh -p 2222 user@10.0.0.5'' = Some (2222, ''user'', ''10.0.0.5'')"
  by code_simp

lemma is_brd_samples:
  "is_brd ''brd-1''" "is_brd ''abc-BRD-1''" "\<not> is_brd ''sbx-1''"
  "\<not> is_brd ''debug_sandbox_id''" "\<not> is_brd []"
  by code_simp+

subsection \<open>The order of versions\<close>

lemma tuple_lt_trans: "tuple_lt a b \<Longrightarrow> tuple_lt b c \<Longrightarrow> tuple_lt a c"
proof (induction a b arbitrary: c rule: tuple_lt.induct)
  case 1
  then show ?case by simp
next
  case (2 y ys)
  then show ?case by (cases c) auto
next
  case (3 x xs)
  then show ?case by simp
next
  case (4 x xs y ys)
  then show ?case by (cases c) auto
qed

lemma version_lt_trans: "version_lt a b \<Longrightarrow> version_lt b c \<Longrightarrow> version_lt a c"
  unfolding version_lt_def by (rule tuple_lt_trans)

lemma below_015_below_024: "version_lt v [0, 1, 5] \<Longrightarrow> version_lt v [0, 2, 4]"
  by (erule version_lt_trans) (simp add: version_lt_def strip_zeros_def)

subsection \<open>The substring test and the marker\<close>

lemma startswith_iff: "startswith s p \<longleftrightarrow> (\<exists>suf. s = p @ suf)"
  by (induction s p rule: startswith.induct) auto

lemma py_in_iff: "py_in needle hay \<longleftrightarrow> (\<exists>pre suf. hay = pre @ needle @ suf)"
proof (induction hay)
  case Nil
  then show ?case by auto
next
  case (Cons c cs)
  show ?case
  proof
    assume "py_in needle (c # cs)"
    then consider "startswith (c # cs) needle" | "py_in needle cs" by auto
    then show "\<exists>pre suf. c # cs = pre @ needle @ suf"
    proof cases
      case 1
      then obtain suf where "c # cs = needle @ suf" by (auto simp: startswith_iff)
      then have "c # cs = [] @ needle @ suf" by simp
      then show ?thesis by blast
    next
      case 2
      then obtain pre suf where "cs = pre @ needle @ suf" using Cons.IH by auto
      then have "c # cs = (c # pre) @ needle @ suf" by simp
      then show ?thesis by blast
    qed
  next
    assume "\<exists>pre suf. c # cs = pre @ needle @ suf"
    then obtain pre suf where e: "c # cs = pre @ needle @ suf" by auto
    show "py_in needle (c # cs)"
    proof (cases pre)
      case Nil
      then have "startswith (c # cs) needle" using e by (simp add: startswith_iff)
      then show ?thesis by simp
    next
      case (Cons a pre')
      then have "cs = pre' @ needle @ suf" using e by simp
      then show ?thesis using Cons.IH by auto
    qed
  qed
qed

lemma code_point_eq_iff: "code_point c = code_point d \<longleftrightarrow> c = d"
  by (simp add: code_point_def)

lemma code_point_lower_char:
  "code_point (lower_char c) =
     (if in_range 65 90 c \<or> in_range 192 214 c \<or> in_range 216 222 c
      then code_point c + 32 else code_point c)"
  by (auto simp: lower_char_def in_range_def code_point_def)

lemma lower_char_eq_letter:
  assumes "97 \<le> code_point t" "code_point t \<le> 122"
  shows "lower_char c = t \<longleftrightarrow> c = t \<or> code_point c + 32 = code_point t"
proof -
  have "lower_char c = t \<longleftrightarrow> code_point (lower_char c) = code_point t"
    by (simp add: code_point_eq_iff)
  also have "\<dots> \<longleftrightarrow> code_point c = code_point t \<or> code_point c + 32 = code_point t"
    using assms by (auto simp: code_point_lower_char in_range_def)
  finally show ?thesis by (simp add: code_point_eq_iff)
qed

lemma lower_char_eq_b: "lower_char c = CHR ''b'' \<longleftrightarrow> c = CHR ''b'' \<or> c = CHR ''B''"
proof -
  have "code_point c + 32 = code_point CHR ''b'' \<longleftrightarrow> code_point c = code_point CHR ''B''"
    by (simp add: code_point_def)
  then have "code_point c + 32 = code_point CHR ''b'' \<longleftrightarrow> c = CHR ''B''"
    by (simp only: code_point_eq_iff)
  then show ?thesis
    using lower_char_eq_letter [of "CHR ''b''" c] by (simp add: code_point_def)
qed

lemma lower_char_eq_r: "lower_char c = CHR ''r'' \<longleftrightarrow> c = CHR ''r'' \<or> c = CHR ''R''"
proof -
  have "code_point c + 32 = code_point CHR ''r'' \<longleftrightarrow> code_point c = code_point CHR ''R''"
    by (simp add: code_point_def)
  then have "code_point c + 32 = code_point CHR ''r'' \<longleftrightarrow> c = CHR ''R''"
    by (simp only: code_point_eq_iff)
  then show ?thesis
    using lower_char_eq_letter [of "CHR ''r''" c] by (simp add: code_point_def)
qed

lemma lower_char_eq_d: "lower_char c = CHR ''d'' \<longleftrightarrow> c = CHR ''d'' \<or> c = CHR ''D''"
proof -
  have "code_point c + 32 = code_point CHR ''d'' \<longleftrightarrow> code_point c = code_point CHR ''D''"
    by (simp add: code_point_def)
  then have "code_point c + 32 = code_point CHR ''d'' \<longleftrightarrow> c = CHR ''D''"
    by (simp only: code_point_eq_iff)
  then show ?thesis
    using lower_char_eq_letter [of "CHR ''d''" c] by (simp add: code_point_def)
qed

lemma is_brd_iff:
  "is_brd sandbox_id \<longleftrightarrow>
     (\<exists>pre b r d post. sandbox_id = pre @ [b, r, d] @ post \<and>
        (b = CHR ''b'' \<or> b = CHR ''B'') \<and> (r = CHR ''r'' \<or> r = CHR ''R'') \<and>
        (d = CHR ''d'' \<or> d = CHR ''D''))"
proof -
  have "is_brd sandbox_id \<longleftrightarrow> (\<exists>pre suf. map lower_char sandbox_id = pre @ ''brd'' @ suf)"
    by (simp add: is_brd_def lower_def py_in_iff)
  also have "\<dots> \<longleftrightarrow>
     (\<exists>pre b r d post. sandbox_id = pre @ [b, r, d] @ post \<and>
        lower_char b = CHR ''b'' \<and> lower_char r = CHR ''r'' \<and> lower_char d = CHR ''d'')"
  proof
    assume "\<exists>pre suf. map lower_char sandbox_id = pre @ ''brd'' @ suf"
    then obtain pre suf where "map lower_char sandbox_id = pre @ ''brd'' @ suf" by blast
    then obtain us vs where 1: "sandbox_id = us @ vs" and 2: "map lower_char vs = ''brd'' @ suf"
      by (auto simp: map_eq_append_conv)
    from 2 obtain b r d post where "vs = b # r # d # post" "lower_char b = CHR ''b''"
      "lower_char r = CHR ''r''" "lower_char d = CHR ''d''"
      by (auto simp: map_eq_Cons_conv)
    with 1 have "sandbox_id = us @ [b, r, d] @ post \<and>
        lower_char b = CHR ''b'' \<and> lower_char r = CHR ''r'' \<and> lower_char d = CHR ''d''"
      by simp
    then show "\<exists>pre b r d post. sandbox_id = pre @ [b, r, d] @ post \<and>
        lower_char b = CHR ''b'' \<and> lower_char r = CHR ''r'' \<and> lower_char d = CHR ''d''"
      by blast
  next
    assume "\<exists>pre b r d post. sandbox_id = pre @ [b, r, d] @ post \<and>
        lower_char b = CHR ''b'' \<and> lower_char r = CHR ''r'' \<and> lower_char d = CHR ''d''"
    then obtain pre b r d post where "sandbox_id = pre @ [b, r, d] @ post"
      "lower_char b = CHR ''b''" "lower_char r = CHR ''r''" "lower_char d = CHR ''d''"
      by blast
    then have "map lower_char sandbox_id = map lower_char pre @ ''brd'' @ map lower_char post"
      by simp
    then show "\<exists>pre suf. map lower_char sandbox_id = pre @ ''brd'' @ suf" by blast
  qed
  finally show ?thesis
    by (simp add: lower_char_eq_b lower_char_eq_r lower_char_eq_d)
qed

subsection \<open>A command without the literal characters of the pattern\<close>

lemma first_some_None: "(\<And>x. x \<in> set xs \<Longrightarrow> f x = None) \<Longrightarrow> first_some f xs = None"
  by (induction xs) auto

lemma match_here_needs_literal:
  "Lit c \<in> set ps \<Longrightarrow> c \<notin> set s \<Longrightarrow> match_here ps s groups = None"
proof (induction ps s groups rule: match_here.induct)
  case (1 s groups)
  then show ?case by simp
next
  case (2 c' ps s groups)
  then show ?case by (cases s) auto
next
  case (3 cls lo greedy capture ps s groups)
  have "c \<notin> set (drop n s)" for n
    using 3(3) by (meson in_set_dropD)
  then have "match_here ps (drop n s) (if capture then groups @ [take n s] else groups) = None"
    for n
    using 3 by auto
  then show ?case by (simp add: first_some_None Let_def)
qed

lemma search_needs_literal: "Lit c \<in> set ps \<Longrightarrow> c \<notin> set s \<Longrightarrow> search ps s = None"
  by (induction s) (auto simp: match_here_needs_literal)

lemma parse_needs_at: "CHR ''@'' \<notin> set cmd \<Longrightarrow> parse_connect_command cmd = None"
proof -
  assume a: "CHR ''@'' \<notin> set cmd"
  have "Lit CHR ''@'' \<in> set pattern" by (simp add: pattern_def)
  then have "search pattern cmd = None" using a by (rule search_needs_literal)
  then show ?thesis by (simp add: parse_connect_command_def)
qed

subsection \<open>The constructors\<close>

lemma init_surfaces_http:
  assumes "\<not> is_brd (s_sandbox_id self)"
  shows "init_surfaces env self st =
    (let tr = \<lparr>t_pool = pools st, t_limits = SandboxApiBase_limits,
                t_proxy = cc_proxy (s_connection_config self)\<rparr>;
         cfg = s_connection_config self;
         url = envd_url env (s_sandbox_id self) cfg;
         envd_api = \<lparr>c_base_url = url, c_transport = tr, c_headers = cc_headers cfg\<rparr>
     in (Inr (self\<lparr>s_transport := Some tr, s_envd_api_url := Some url,
                    s_envd_api := Some envd_api,
                    s_filesystem := Some (Filesystem url (envd_version_of self) cfg (pools st) envd_api),
                    s_commands := Some (Commands url cfg (pools st)),
                    s_pty := Some (Pty url cfg (pools st))\<rparr>),
         st\<lparr>pools := Suc (pools st)\<rparr>))"
  using assms
  by (simp add: init_surfaces_def and_then_def new_transport_def ret_def Let_def envd_version_of_def)

lemma init_surfaces_ssh:
  assumes "is_brd (s_sandbox_id self)"
  shows "init_surfaces env self st =
    (let tr = \<lparr>t_pool = pools st, t_limits = SandboxApiBase_limits,
                t_proxy = cc_proxy (s_connection_config self)\<rparr>;
         cfg = s_connection_config self;
         st1 = st\<lparr>pools := Suc (pools st)\<rparr>
     in case api_get_ssh env (s_sandbox_id self) (get_api_params env cfg no_params) (remote st) of
          (Inl e, w) \<Rightarrow> (Inl e, st1\<lparr>remote := w\<rparr>)
        | (Inr ssh_info, w) \<Rightarrow>
            (case parse_connect_command (connect_command ssh_info) of
               None \<Rightarrow> (Inl (PyException ''Could not parse SSH connection details''), st1\<lparr>remote := w\<rparr>)
             | Some (port, username, host) \<Rightarrow>
                 let c = SSHCommands2 (Some host) (Some port) (Some username)
                           (Some (auth_password ssh_info)) cfg
                 in (Inr (self\<lparr>s_transport := Some tr,
                       s_ssh_port := Some port, s_ssh_username := Some username,
                       s_ssh_host := Some host, s_ssh_password := Some (auth_password ssh_info),
                       s_watch_commands := Some c, s_commands := Some c,
                       s_filesystem := Some (SSHSyncFilesystem (Some host) (Some port)
                         (Some username) (Some (auth_password ssh_info)) cfg c c),
                       s_adb_shell := Some (ADBShell cfg (s_sandbox_id self))\<rparr>),
                     st1\<lparr>remote := w\<rparr>)))"
  using assms
  by (simp add: init_surfaces_def and_then_def new_transport_def ret_def raise_def Let_def call_def
      split: prod.splits sum.splits option.splits)

lemma init_identity_Inr:
  assumes "init_identity env template timeout metadata envs secure opts self0 st = (Inr self, st1)"
  shows "pools st1 = pools st" and "blank self0 \<Longrightarrow> blank self"
  using assms
  by (auto simp: init_identity_def ret_def and_then_def call_def blank_def
      split: if_splits option.splits prod.splits sum.splits)

lemma Sandbox_init_Inr:
  assumes "Sandbox_init env template timeout metadata envs secure opts st = (Inr s, st')"
  shows "\<exists>self st1. blank self \<and> pools st1 = pools st \<and> init_surfaces env self st1 = (Inr s, st')"
proof -
  let ?cfg = "case o_connection_config opts of
                Some connection_config \<Rightarrow> connection_config
              | None \<Rightarrow> ConnectionConfig env None (o_api opts)"
  from assms have "and_then
          (init_identity env template timeout metadata envs secure opts (init_from_opts opts ?cfg))
          (init_surfaces env) st = (Inr s, st')"
    by (simp add: Sandbox_init_def raise_def split: if_splits)
  then obtain self st1 where
    1: "init_identity env template timeout metadata envs secure opts (init_from_opts opts ?cfg) st
          = (Inr self, st1)"
    and 2: "init_surfaces env self st1 = (Inr s, st')"
    by (auto dest: and_then_Inr)
  have "blank (init_from_opts opts ?cfg)" by (simp add: blank_def init_from_opts_def)
  with 1 have "blank self" "pools st1 = pools st" by (auto dest: init_identity_Inr)
  with 2 show ?thesis by blast
qed

lemma init_surfaces_Inr:
  assumes "init_surfaces env self st = (Inr s, st')" and "blank self"
  shows "backend_chosen s"
    and "\<exists>tr. s_transport s = Some tr \<and> t_limits tr = SandboxApiBase_limits \<and>
           t_pool tr = pools st \<and> pools st' = Suc (pools st)"
    and "is_brd (s_sandbox_id s) \<Longrightarrow>
           \<exists>p w ssh w'. api_get_ssh env (s_sandbox_id s) p w = (Inr ssh, w') \<and> endpoint_from s ssh"
proof -
  show "backend_chosen s"
  proof (cases "is_brd (s_sandbox_id self)")
    case True
    with assms show ?thesis
      by (auto simp: init_surfaces_ssh Let_def backend_chosen_def ssh_surfaces_def http_surfaces_def
          blank_def split: prod.splits sum.splits option.splits)
  next
    case False
    with assms show ?thesis
      by (auto simp: init_surfaces_http Let_def backend_chosen_def ssh_surfaces_def http_surfaces_def
          blank_def)
  qed
  show "\<exists>tr. s_transport s = Some tr \<and> t_limits tr = SandboxApiBase_limits \<and>
           t_pool tr = pools st \<and> pools st' = Suc (pools st)"
  proof (cases "is_brd (s_sandbox_id self)")
    case True
    with assms show ?thesis
      by (auto simp: init_surfaces_ssh Let_def split: prod.splits sum.splits option.splits)
  next
    case False
    with assms show ?thesis
      by (auto simp: init_surfaces_http Let_def)
  qed
  show "\<exists>p w ssh w'. api_get_ssh env (s_sandbox_id s) p w = (Inr ssh, w') \<and> endpoint_from s ssh"
    if "is_brd (s_sandbox_id s)"
  proof (cases "is_brd (s_sandbox_id self)")
    case True
    with assms obtain ssh w port username host where
      g: "api_get_ssh env (s_sandbox_id self)
            (get_api_params env (s_connection_config self) no_params) (remote st) = (Inr ssh, w)"
      and p: "parse_connect_command (connect_command ssh) = Some (port, username, host)"
      and f: "s_sandbox_id s = s_sandbox_id self" "s_ssh_port s = Some port"
        "s_ssh_username s = Some username" "s_ssh_host s = Some host"
        "s_ssh_password s = Some (auth_password ssh)"
      by (auto simp: init_surfaces_ssh Let_def split: prod.splits sum.splits option.splits)
    have "endpoint_from s ssh" using p f by (simp add: endpoint_from_def)
    with g f(1) show ?thesis by metis
  next
    case False
    with assms that show ?thesis
      by (auto simp: init_surfaces_http Let_def)
  qed
qed

lemma Sandbox_cls_Inr:
  assumes "Sandbox_cls env opts st = (Inr s, st')"
  shows "backend_chosen s"
    and "\<exists>tr. s_transport s = Some tr \<and> t_limits tr = SandboxApiBase_limits \<and>
           pools st \<le> t_pool tr \<and> t_pool tr < pools st'"
    and "is_brd (s_sandbox_id s) \<Longrightarrow>
           \<exists>p w ssh w'. api_get_ssh env (s_sandbox_id s) p w = (Inr ssh, w') \<and> endpoint_from s ssh"
proof -
  from assms obtain self st1 where b: "blank self" and p: "pools st1 = pools st"
    and i: "init_surfaces env self st1 = (Inr s, st')"
    unfolding Sandbox_cls_def by (blast dest: Sandbox_init_Inr)
  show "backend_chosen s" using init_surfaces_Inr(1) [OF i b] .
  show "\<exists>tr. s_transport s = Some tr \<and> t_limits tr = SandboxApiBase_limits \<and>
           pools st \<le> t_pool tr \<and> t_pool tr < pools st'"
    using init_surfaces_Inr(2) [OF i b] p by auto
  show "\<exists>p w ssh w'. api_get_ssh env (s_sandbox_id s) p w = (Inr ssh, w') \<and> endpoint_from s ssh"
    if "is_brd (s_sandbox_id s)"
    using init_surfaces_Inr(3) [OF i b that] .
qed

lemma AsyncSandbox_init_Inr:
  assumes "AsyncSandbox_init env opts st = (Inr s, st')"
  shows "backend_chosen s"
    and "o_sandbox_id opts = Some (s_sandbox_id s)"
    and "s_ssh_port s = o_ssh_port opts \<and> s_ssh_username s = o_ssh_username opts \<and>
         s_ssh_host s = o_ssh_host opts \<and> s_ssh_password s = o_ssh_password opts"
    and "s_transport s = Some tr \<Longrightarrow>
           t_limits tr = SandboxApiBase_limits \<and> pools st \<le> t_pool tr \<and> t_pool tr < pools st'"
  using assms
  by (auto simp: AsyncSandbox_init_def raise_def ret_def and_then_def new_transport_def Let_def
      backend_chosen_def ssh_surfaces_def http_surfaces_def
      split: option.splits if_splits sum.splits prod.splits)

lemma create_session_Inr:
  assumes "create_session cls env sandbox_id v token extra opts st = (Inr s, st')"
  shows "\<exists>o' st1. cls env o' st1 = (Inr s, st') \<and> pools st1 = pools st \<and>
           o_sandbox_id o' = Some sandbox_id \<and>
           (is_brd sandbox_id \<longrightarrow>
              (\<exists>p w ssh w'. api_get_ssh env sandbox_id p w = (Inr ssh, w') \<and> opts_endpoint o' ssh))"
proof (cases "is_brd sandbox_id")
  case False
  let ?o = "no_opts\<lparr>o_sandbox_id := Some sandbox_id,
              o_connection_config := Some (ConnectionConfig env (Some extra) opts),
              o_envd_version := v, o_envd_access_token := token\<rparr>"
  from False assms have "cls env ?o st = (Inr s, st')"
    by (simp add: create_session_def Let_def)
  then have "cls env ?o st = (Inr s, st') \<and> pools st = pools st \<and>
      o_sandbox_id ?o = Some sandbox_id" by simp
  with False show ?thesis by blast
next
  case True
  let ?cfg = "ConnectionConfig env (Some extra) opts"
  from True assms obtain ssh st1 port username host where
    g: "call (api_get_ssh env sandbox_id (get_api_params env ?cfg no_params)) st = (Inr ssh, st1)"
    and p: "parse_connect_command (connect_command ssh) = Some (port, username, host)"
    and c: "cls env (no_opts\<lparr>
                      o_sandbox_id := Some sandbox_id,
                      o_connection_config := Some ?cfg,
                      o_envd_version := v,
                      o_envd_access_token := token,
                      o_ssh_host := Some host, o_ssh_port := Some port,
                      o_ssh_username := Some username,
                      o_ssh_password := Some (auth_password ssh)\<rparr>) st1 = (Inr s, st')"
    by (auto simp: create_session_def Let_def raise_def dest!: and_then_Inr split: option.splits)
  from g have q: "pools st1 = pools st"
    "api_get_ssh env sandbox_id (get_api_params env ?cfg no_params) (remote st) = (Inr ssh, remote st1)"
    by (auto dest: call_local)
  let ?o = "no_opts\<lparr>
                      o_sandbox_id := Some sandbox_id,
                      o_connection_config := Some ?cfg,
                      o_envd_version := v,
                      o_envd_access_token := token,
                      o_ssh_host := Some host, o_ssh_port := Some port,
                      o_ssh_username := Some username,
                      o_ssh_password := Some (auth_password ssh)\<rparr>"
  have "opts_endpoint ?o ssh" using p by (simp add: opts_endpoint_def)
  with c q have "cls env ?o st1 = (Inr s, st') \<and> pools st1 = pools st \<and>
      o_sandbox_id ?o = Some sandbox_id \<and>
      (\<exists>p w ssh w'. api_get_ssh env sandbox_id p w = (Inr ssh, w') \<and> opts_endpoint ?o ssh)"
    by auto
  then show ?thesis by blast
qed

lemma create_session_reaches:
  "create_session cls env sandbox_id v token extra opts st = (Inr s, st') \<Longrightarrow>
   reaches cls env sandbox_id (pools st) s st'"
  unfolding reaches_def by (rule create_session_Inr)

lemma cls_connect_reaches:
  assumes "cls_connect cls env sandbox_id timeout opts st = (Inr s, st')"
  shows "reaches cls env sandbox_id (pools st) s st'"
proof (cases "is_brd sandbox_id")
  case False
  with assms obtain r st1 where
    a: "call (api_connect env sandbox_id (int_or timeout (default_sandbox_timeout env)) opts) st
          = (Inr r, st1)"
    and c: "cls env (no_opts\<lparr>
                  o_sandbox_id := Some sandbox_id,
                  o_connection_config :=
                    Some (ConnectionConfig env (Some (token_headers (n_envd_access_token r))) opts),
                  o_envd_version := n_envd_version r,
                  o_envd_access_token := n_envd_access_token r\<rparr>) st1 = (Inr s, st')"
    by (auto simp: cls_connect_def Let_def dest!: and_then_Inr)
  from a have "pools st1 = pools st" by (auto dest: call_local)
  with c False show ?thesis unfolding reaches_def
    by (intro exI conjI) (assumption, simp_all)
next
  case True
  from True assms obtain info st1 ssh st2 port username host where
    i: "call (api_get_info env sandbox_id opts) st = (Inr info, st1)"
    and g: "call (api_get_ssh env sandbox_id opts) st1 = (Inr ssh, st2)"
    and p: "parse_connect_command (connect_command ssh) = Some (port, username, host)"
    and c: "cls env (no_opts\<lparr>
                           o_sandbox_id := Some sandbox_id,
                           o_envd_version := i_envd_version info,
                           o_envd_access_token := i_envd_access_token info,
                           o_connection_config := Some (ConnectionConfig env None opts),
                           o_ssh_host := Some host, o_ssh_port := Some port,
                           o_ssh_username := Some username,
                           o_ssh_password := Some (auth_password ssh)\<rparr>) st2 = (Inr s, st')"
    by (auto simp: cls_connect_def Let_def raise_def dest!: and_then_Inr split: option.splits)
  from i g have q: "pools st2 = pools st"
    "api_get_ssh env sandbox_id opts (remote st1) = (Inr ssh, remote st2)"
    by (auto dest!: call_local)
  let ?o = "no_opts\<lparr>
                           o_sandbox_id := Some sandbox_id,
                           o_envd_version := i_envd_version info,
                           o_envd_access_token := i_envd_access_token info,
                           o_connection_config := Some (ConnectionConfig env None opts),
                           o_ssh_host := Some host, o_ssh_port := Some port,
                           o_ssh_username := Some username,
                           o_ssh_password := Some (auth_password ssh)\<rparr>"
  have "opts_endpoint ?o ssh" using p by (simp add: opts_endpoint_def)
  with c q have "cls env ?o st2 = (Inr s, st') \<and> pools st2 = pools st \<and>
      o_sandbox_id ?o = Some sandbox_id \<and>
      (\<exists>p w ssh w'. api_get_ssh env sandbox_id p w = (Inr ssh, w') \<and> opts_endpoint ?o ssh)"
    by auto
  then show ?thesis unfolding reaches_def by blast
qed

lemma cls_resume_brd:
  "is_brd sandbox_id \<Longrightarrow>
   cls_resume cls env sandbox_id auto_pause timeout opts = cls_connect cls env sandbox_id timeout' opts"
  by (simp add: cls_resume_def cls_connect_def)

lemma cls_resume_reaches:
  assumes "cls_resume cls env sandbox_id auto_pause timeout opts st = (Inr s, st')"
  shows "reaches cls env sandbox_id (pools st) s st'"
proof (cases "is_brd sandbox_id")
  case True
  with assms show ?thesis by (simp add: cls_resume_brd [where timeout' = timeout] cls_connect_reaches)
next
  case False
  with assms obtain r st1 where
    a: "call (api_resume env sandbox_id auto_pause (int_or timeout (default_sandbox_timeout env)) opts) st
          = (Inr r, st1)"
    and c: "cls env (no_opts\<lparr>
                  o_sandbox_id := Some sandbox_id,
                  o_connection_config :=
                    Some (ConnectionConfig env (Some (token_headers (n_envd_access_token r))) opts),
                  o_envd_version := n_envd_version r,
                  o_envd_access_token := n_envd_access_token r\<rparr>) st1 = (Inr s, st')"
    by (auto simp: cls_resume_def Let_def dest!: and_then_Inr)
  from a have "pools st1 = pools st" by (auto dest: call_local)
  with c False show ?thesis unfolding reaches_def
    by (intro exI conjI) (assumption, simp_all)
qed

lemma Sandbox_create_reaches:
  assumes "Sandbox_create env template timeout auto_pause metadata envs secure opts st = (Inr s, st')"
  shows "\<exists>sandbox_id. reaches Sandbox_cls env sandbox_id (pools st) s st'"
proof (cases "p_debug opts = Some True")
  case True
  with assms show ?thesis
    by (auto simp: Sandbox_create_def dest: create_session_reaches)
next
  case False
  with assms obtain r st1 v where
    a: "call (api_create_sandbox env (str_or template (default_template env))
             (int_or timeout (default_sandbox_timeout env))
             auto_pause metadata envs secure opts) st = (Inr r, st1)"
    and c: "create_session Sandbox_cls env (r_sandbox_id r) (Some v) (r_envd_access_token r)
                   (token_headers (r_envd_access_token r)) opts st1 = (Inr s, st')"
    by (auto simp: Sandbox_create_def raise_def dest!: and_then_Inr split: option.splits)
  from a have "pools st1 = pools st" by (auto dest: call_local)
  with create_session_reaches [OF c] show ?thesis by auto
qed

lemma AsyncSandbox_create_reaches:
  assumes "AsyncSandbox_create env template timeout auto_pause metadata envs secure opts st = (Inr s, st')"
  shows "\<exists>sandbox_id. reaches AsyncSandbox_init env sandbox_id (pools st) s st'"
proof (cases "p_debug opts = Some True")
  case True
  with assms show ?thesis
    by (auto simp: AsyncSandbox_create_def dest: create_session_reaches)
next
  case False
  with assms obtain r st1 where
    a: "call (api_create_sandbox env (str_or template (default_template env))
             (int_or timeout (default_sandbox_timeout env))
             auto_pause metadata envs secure opts) st = (Inr r, st1)"
    and c: "create_session AsyncSandbox_init env (r_sandbox_id r) (r_envd_version r)
                   (r_envd_access_token r)
                   (token_headers (r_envd_access_token r)) opts st1 = (Inr s, st')"
    by (auto simp: AsyncSandbox_create_def dest!: and_then_Inr)
  from a have "pools st1 = pools st" by (auto dest: call_local)
  with create_session_reaches [OF c] show ?thesis by auto
qed

lemma reaches_sync:
  assumes "reaches Sandbox_cls env sandbox_id n s st'"
  shows "sound n s st'"
    and "is_brd (s_sandbox_id s) \<Longrightarrow>
           \<exists>p w ssh w'. api_get_ssh env (s_sandbox_id s) p w = (Inr ssh, w') \<and> endpoint_from s ssh"
proof -
  from assms obtain o' st1 where c: "Sandbox_cls env o' st1 = (Inr s, st')" and "pools st1 = n"
    unfolding reaches_def by blast
  then show "sound n s st'"
    using Sandbox_cls_Inr(1,2) [OF c] by (auto simp: sound_def)
  show "\<exists>p w ssh w'. api_get_ssh env (s_sandbox_id s) p w = (Inr ssh, w') \<and> endpoint_from s ssh"
    if "is_brd (s_sandbox_id s)"
    using Sandbox_cls_Inr(3) [OF c that] .
qed

lemma reaches_async:
  assumes "reaches AsyncSandbox_init env sandbox_id n s st'"
  shows "sound n s st'"
    and "is_brd (s_sandbox_id s) \<Longrightarrow>
           \<exists>p w ssh w'. api_get_ssh env (s_sandbox_id s) p w = (Inr ssh, w') \<and> endpoint_from s ssh"
proof -
  from assms obtain o' st1 where c: "AsyncSandbox_init env o' st1 = (Inr s, st')"
    and n: "pools st1 = n" and i: "o_sandbox_id o' = Some sandbox_id"
    and e: "is_brd sandbox_id \<longrightarrow>
           (\<exists>p w ssh w'. api_get_ssh env sandbox_id p w = (Inr ssh, w') \<and> opts_endpoint o' ssh)"
    unfolding reaches_def by blast
  show "sound n s st'"
    using AsyncSandbox_init_Inr(1,4) [OF c] n by (auto simp: sound_def)
  have id: "s_sandbox_id s = sandbox_id" using AsyncSandbox_init_Inr(2) [OF c] i by simp
  show "\<exists>p w ssh w'. api_get_ssh env (s_sandbox_id s) p w = (Inr ssh, w') \<and> endpoint_from s ssh"
    if "is_brd (s_sandbox_id s)"
  proof -
    from that e id obtain p w ssh w' where
      g: "api_get_ssh env sandbox_id p w = (Inr ssh, w')" and oe: "opts_endpoint o' ssh"
      by auto
    have "endpoint_from s ssh"
      using oe AsyncSandbox_init_Inr(3) [OF c]
      by (auto simp: opts_endpoint_def endpoint_from_def split: option.splits)
    with g id show ?thesis by blast
  qed
qed

lemma Sandbox_init_sound:
  assumes "Sandbox_init env template timeout metadata envs secure opts st = (Inr s, st')"
  shows "sound (pools st) s st'"
    and "is_brd (s_sandbox_id s) \<Longrightarrow>
           \<exists>p w ssh w'. api_get_ssh env (s_sandbox_id s) p w = (Inr ssh, w') \<and> endpoint_from s ssh"
proof -
  from assms obtain self st1 where b: "blank self" and p: "pools st1 = pools st"
    and i: "init_surfaces env self st1 = (Inr s, st')"
    by (blast dest: Sandbox_init_Inr)
  show "sound (pools st) s st'"
    using init_surfaces_Inr(1,2) [OF i b] p by (auto simp: sound_def)
  show "\<exists>p w ssh w'. api_get_ssh env (s_sandbox_id s) p w = (Inr ssh, w') \<and> endpoint_from s ssh"
    if "is_brd (s_sandbox_id s)"
    using init_surfaces_Inr(3) [OF i b that] .
qed

lemma construct_sound:
  assumes "construct env c st = (Inr s, st')"
  shows "sound (pools st) s st'"
proof (cases c)
  case (New_Sandbox template timeout metadata envs secure opts)
  with assms show ?thesis by (auto dest: Sandbox_init_sound(1))
next
  case (Sandbox_Beta_Create template timeout auto_pause metadata envs secure opts)
  with assms show ?thesis
    by (auto simp: Sandbox_beta_create_def dest!: Sandbox_create_reaches dest: reaches_sync(1))
next
  case (Sandbox_Connect sandbox_id timeout opts)
  with assms show ?thesis
    by (auto simp: Sandbox_cls_connect_def dest!: cls_connect_reaches dest: reaches_sync(1))
next
  case (Sandbox_Resume sandbox_id auto_pause timeout opts)
  with assms show ?thesis
    by (auto simp: Sandbox_cls_resume_def dest!: cls_resume_reaches dest: reaches_sync(1))
next
  case (New_AsyncSandbox opts)
  with assms show ?thesis
    using AsyncSandbox_init_Inr(1,4) [of env opts st s st'] by (auto simp: sound_def)
next
  case (AsyncSandbox_Create template timeout metadata envs secure opts)
  with assms show ?thesis
    by (auto simp: AsyncSandbox_create_new_def dest!: AsyncSandbox_create_reaches
        dest: reaches_async(1))
next
  case (AsyncSandbox_Beta_Create template timeout auto_pause metadata envs secure opts)
  with assms show ?thesis
    by (auto simp: AsyncSandbox_beta_create_def dest!: AsyncSandbox_create_reaches
        dest: reaches_async(1))
next
  case (AsyncSandbox_Connect sandbox_id timeout opts)
  with assms show ?thesis
    by (auto simp: AsyncSandbox_cls_connect_def dest!: cls_connect_reaches dest: reaches_async(1))
next
  case (AsyncSandbox_Resume sandbox_id auto_pause timeout opts)
  with assms show ?thesis
    by (auto simp: AsyncSandbox_cls_resume_def dest!: cls_resume_reaches dest: reaches_async(1))
qed

lemma construct_endpoint:
  assumes "construct env c st = (Inr s, st')" and "\<forall>opts. c \<noteq> New_AsyncSandbox opts"
    and "is_brd (s_sandbox_id s)"
  shows "\<exists>p w ssh w'. api_get_ssh env (s_sandbox_id s) p w = (Inr ssh, w') \<and> endpoint_from s ssh"
proof (cases c)
  case (New_Sandbox template timeout metadata envs secure opts)
  with assms(1) have "Sandbox_init env template timeout metadata envs secure opts st = (Inr s, st')"
    by simp
  then show ?thesis using assms(3) by (rule Sandbox_init_sound(2))
next
  case (Sandbox_Beta_Create template timeout auto_pause metadata envs secure opts)
  with assms(1) obtain sandbox_id where "reaches Sandbox_cls env sandbox_id (pools st) s st'"
    by (auto simp: Sandbox_beta_create_def dest!: Sandbox_create_reaches)
  then show ?thesis using assms(3) by (rule reaches_sync(2))
next
  case (Sandbox_Connect sandbox_id timeout opts)
  with assms(1) have "reaches Sandbox_cls env sandbox_id (pools st) s st'"
    by (auto simp: Sandbox_cls_connect_def dest!: cls_connect_reaches)
  then show ?thesis using assms(3) by (rule reaches_sync(2))
next
  case (Sandbox_Resume sandbox_id auto_pause timeout opts)
  with assms(1) have "reaches Sandbox_cls env sandbox_id (pools st) s st'"
    by (auto simp: Sandbox_cls_resume_def dest!: cls_resume_reaches)
  then show ?thesis using assms(3) by (rule reaches_sync(2))
next
  case (New_AsyncSandbox opts)
  with assms(2) show ?thesis by simp
next
  case (AsyncSandbox_Create template timeout metadata envs secure opts)
  with assms(1) obtain sandbox_id where "reaches AsyncSandbox_init env sandbox_id (pools st) s st'"
    by (auto simp: AsyncSandbox_create_new_def dest!: AsyncSandbox_create_reaches)
  then show ?thesis using assms(3) by (rule reaches_async(2))
next
  case (AsyncSandbox_Beta_Create template timeout auto_pause metadata envs secure opts)
  with assms(1) obtain sandbox_id where "reaches AsyncSandbox_init env sandbox_id (pools st) s st'"
    by (auto simp: AsyncSandbox_beta_create_def dest!: AsyncSandbox_create_reaches)
  then show ?thesis using assms(3) by (rule reaches_async(2))
next
  case (AsyncSandbox_Connect sandbox_id timeout opts)
  with assms(1) have "reaches AsyncSandbox_init env sandbox_id (pools st) s st'"
    by (auto simp: AsyncSandbox_cls_connect_def dest!: cls_connect_reaches)
  then show ?thesis using assms(3) by (rule reaches_async(2))
next
  case (AsyncSandbox_Resume sandbox_id auto_pause timeout opts)
  with assms(1) have "reaches AsyncSandbox_init env sandbox_id (pools st) s st'"
    by (auto simp: AsyncSandbox_cls_resume_def dest!: cls_resume_reaches)
  then show ?thesis using assms(3) by (rule reaches_async(2))
qed
















lemma AsyncSandbox_init_http:
  assumes "\<not> is_brd sandbox_id" and "o_sandbox_id opts = Some sandbox_id"
    and "o_connection_config opts = Some cfg" and "o_envd_version opts = Some v"
  shows "AsyncSandbox_init env opts st =
    (let tr = \<lparr>t_pool = pools st, t_limits = SandboxApiBase_limits, t_proxy = cc_proxy cfg\<rparr>;
         url = envd_url env sandbox_id cfg;
         envd_api = \<lparr>c_base_url = url, c_transport = tr, c_headers = cc_headers cfg\<rparr>
     in (Inr \<lparr>s_sandbox_id = sandbox_id, s_connection_config = cfg,
               s_envd_version = Assigned (Some v),
               s_envd_access_token = o_envd_access_token opts,
               s_ssh_host = o_ssh_host opts, s_ssh_port = o_ssh_port opts,
               s_ssh_username = o_ssh_username opts, s_ssh_password = o_ssh_password opts,
               s_transport = Some tr, s_envd_api_url = Some url, s_envd_api = Some envd_api,
               s_filesystem = Some (Filesystem url (Some v) cfg (pools st) envd_api),
               s_commands = Some (Commands url cfg (pools st)), s_watch_commands = None,
               s_pty = Some (Pty url cfg (pools st)), s_adb_shell = None\<rparr>,
         st\<lparr>pools := Suc (pools st)\<rparr>))"
  using assms
  by (simp add: AsyncSandbox_init_def and_then_def new_transport_def ret_def Let_def
      read_envd_version_def)

subsection \<open>The constructors make no resume or connect call\<close>

lemma init_surfaces_no_resume:
  "init_surfaces (env\<lparr>api_resume := f, api_connect := g\<rparr>) = init_surfaces env"
  by (simp add: init_surfaces_def envd_url_def fun_eq_iff Let_def
      cong: option.case_cong if_cong prod.case_cong attr.case_cong)

lemma init_identity_no_resume:
  "init_identity (env\<lparr>api_resume := f, api_connect := g\<rparr>) = init_identity env"
  by (simp add: init_identity_def fun_eq_iff
      cong: option.case_cong if_cong prod.case_cong attr.case_cong)

lemma Sandbox_cls_no_resume:
  "Sandbox_cls (env\<lparr>api_resume := f, api_connect := g\<rparr>) opts = Sandbox_cls env opts"
  by (simp add: Sandbox_cls_def Sandbox_init_def init_identity_no_resume init_surfaces_no_resume
      cong: option.case_cong if_cong prod.case_cong attr.case_cong)

lemma AsyncSandbox_init_no_resume:
  "AsyncSandbox_init (env\<lparr>api_resume := f, api_connect := g\<rparr>) opts = AsyncSandbox_init env opts"
  by (simp add: AsyncSandbox_init_def envd_url_def read_envd_version_def fun_eq_iff Let_def
      cong: option.case_cong if_cong prod.case_cong attr.case_cong)

subsection \<open>The access-token header\<close>























subsection \<open>Runs of the sample environment\<close>

lemma probe_env_send:
  "send (probe_env outcome) q new_process =
     (outcome, new_process\<lparr>remote := [''health''], sent := [q]\<rparr>)"
  by (simp add: send_def probe_env_def call_def new_process_def)

lemma unparsable_env_simps:
  "api_get_info unparsable_env sandbox_id opts w = (Inr (sample_info sandbox_id), w @ [''get_info''])"
  "api_get_ssh unparsable_env sandbox_id opts w =
     (Inr \<lparr>connect_command = ''ssh -p 2222 user10.0.0.5'', auth_password = ''secret''\<rparr>,
      w @ [''get_ssh''])"
  by (simp_all add: unparsable_env_def sample_env_simps)




lemma connect_sample_brd:
  "\<exists>s st'. construct sample_env (Sandbox_Connect ''abc-BRD-1'' None no_params) new_process
       = (Inr s, st') \<and> s_sandbox_id s = ''abc-BRD-1''"
  by (simp add: Sandbox_cls_connect_def cls_connect_def Sandbox_cls_def Sandbox_init_def
      is_brd_samples sample_env_simps and_then_def call_def parse_sample new_process_def no_opts_def
      no_params_def init_identity_def init_from_opts_def init_surfaces_ssh sample_info_def ret_def
      set_access_token_header_def Let_def)

lemma create_sample_http:
  "\<exists>s st'. construct sample_env (AsyncSandbox_Create None None None None None no_params) new_process
       = (Inr s, st') \<and> s_sandbox_id s = ''sbx-1''"
  by (simp add: AsyncSandbox_create_new_def AsyncSandbox_create_def create_session_def
      is_brd_samples sample_env_simps and_then_def call_def new_process_def no_params_def Let_def
      AsyncSandbox_init_http [of "''sbx-1''" _ _ "[0, 2, 0]"] no_opts_def)

section \<open>The version gate of get\_metrics\<close>

text \<open>
  Claim C4. With a cached daemon version strictly below 0.1.5, \<open>get_metrics\<close> raises the
  capability error and leaves the state of the process as it was: no call was made.
  With a version from 0.1.5 and strictly below 0.2.4 it makes the control-plane call after
  logging one warning about disk metrics. With a version from 0.2.4 it makes the call and
  logs nothing. The three cases cover every version, since a version below 0.1.5 is
  below 0.2.4.
\<close>

theorem get_metrics_version_gate:
  assumes "s_envd_version self = Assigned (Some v)"
  shows
    "(version_lt v [0, 1, 5] \<longrightarrow>
        version_lt v [0, 2, 4] \<and>
        get_metrics env self start end_time opts st =
          (Inl (SandboxException
             (''Metrics are not supported in this version of the sandbox, '' @
              ''please rebuild your template.'')), st)) \<and>
     (\<not> version_lt v [0, 1, 5] \<and> version_lt v [0, 2, 4] \<longrightarrow>
        get_metrics env self start end_time opts st =
          call (api_get_metrics env (s_sandbox_id self) start end_time
                  (get_api_params env (s_connection_config self) opts))
            (st\<lparr>warnings := warnings st @
               [''Disk metrics are not supported in this version of the sandbox, '' @
                ''please rebuild the template to get disk metrics.'']\<rparr>)) \<and>
     (\<not> version_lt v [0, 2, 4] \<longrightarrow>
        get_metrics env self start end_time opts st =
          call (api_get_metrics env (s_sandbox_id self) start end_time
                  (get_api_params env (s_connection_config self) opts)) st)"
  using assms below_015_below_024 [of v]
  by (auto simp: get_metrics_def read_envd_version_def and_then_def below_def raise_def
      log_warning_def ret_def)

theorem get_metrics_version_gate_witness:
  "get_metrics sample_env (sample_session (Some [0, 1, 0])) None None no_params new_process =
     (Inl (SandboxException
        (''Metrics are not supported in this version of the sandbox, '' @
         ''please rebuild your template.'')), new_process) \<and>
   get_metrics sample_env (sample_session (Some [0, 2, 0])) None None no_params new_process =
     (Inr [], new_process\<lparr>remote := [''get_metrics''], warnings :=
        [''Disk metrics are not supported in this version of the sandbox, '' @
         ''please rebuild the template to get disk metrics.'']\<rparr>) \<and>
   get_metrics sample_env (sample_session (Some [0, 3, 0])) None None no_params new_process =
     (Inr [], new_process\<lparr>remote := [''get_metrics'']\<rparr>)"
  using get_metrics_version_gate [of "sample_session (Some [0, 1, 0])" "[0, 1, 0]"
      sample_env None None no_params new_process]
    get_metrics_version_gate [of "sample_session (Some [0, 2, 0])" "[0, 2, 0]"
      sample_env None None no_params new_process]
    get_metrics_version_gate [of "sample_session (Some [0, 3, 0])" "[0, 3, 0]"
      sample_env None None no_params new_process]
  by (simp add: sample_session_def sample_env_simps new_process_def call_def version_lt_def
      strip_zeros_def sample_config_def)

section \<open>The backend follows the marker\<close>

text \<open>
  Claim C1. Whatever way a session is constructed (the constructor, create, connect or
  resume of either class), the session that is returned has exactly one set of execution
  surfaces, and which one depends on its identity alone: the SSH commands, the SSH
  filesystem and the ADB shell when the lowercased identity contains \<^verbatim>\<open>brd\<close>, and the
  HTTP client, filesystem, commands and pty otherwise. The test is a substring test that
  ignores case: it holds exactly when the identity contains a \<^verbatim>\<open>b\<close>, an \<^verbatim>\<open>r\<close> and a
  \<^verbatim>\<open>d\<close> in a row, each in either case. The identity is the one the session holds; the
  synchronous constructor in debug mode replaces the one it was given by
  \<^verbatim>\<open>debug_sandbox_id\<close>.
\<close>

theorem backend_follows_marker:
  assumes "construct env c st = (Inr s, st')"
  shows "(is_brd (s_sandbox_id s) \<longleftrightarrow>
            (\<exists>pre b r d post. s_sandbox_id s = pre @ [b, r, d] @ post \<and>
               (b = CHR ''b'' \<or> b = CHR ''B'') \<and> (r = CHR ''r'' \<or> r = CHR ''R'') \<and>
               (d = CHR ''d'' \<or> d = CHR ''D''))) \<and>
         (if is_brd (s_sandbox_id s) then ssh_surfaces s \<and> \<not> http_surfaces s
          else http_surfaces s \<and> \<not> ssh_surfaces s)"
  using construct_sound [OF assms] is_brd_iff [of "s_sandbox_id s"]
  by (simp add: sound_def backend_chosen_def)

theorem backend_follows_marker_witness:
  "(\<exists>s st'. construct sample_env (Sandbox_Connect ''abc-BRD-1'' None no_params) new_process
       = (Inr s, st') \<and> ssh_surfaces s \<and> \<not> http_surfaces s) \<and>
   (\<exists>s st'. construct sample_env (AsyncSandbox_Create None None None None None no_params) new_process
       = (Inr s, st') \<and> http_surfaces s \<and> \<not> ssh_surfaces s)"
proof -
  obtain s1 st1 where
    1: "construct sample_env (Sandbox_Connect ''abc-BRD-1'' None no_params) new_process = (Inr s1, st1)"
    and i1: "s_sandbox_id s1 = ''abc-BRD-1''"
    using connect_sample_brd by blast
  obtain s2 st2 where
    2: "construct sample_env (AsyncSandbox_Create None None None None None no_params) new_process
          = (Inr s2, st2)"
    and i2: "s_sandbox_id s2 = ''sbx-1''"
    using create_sample_http by blast
  from backend_follows_marker [OF 1] i1 have "ssh_surfaces s1 \<and> \<not> http_surfaces s1"
    by (simp add: is_brd_samples)
  moreover from backend_follows_marker [OF 2] i2 have "http_surfaces s2 \<and> \<not> ssh_surfaces s2"
    by (simp add: is_brd_samples)
  ultimately show ?thesis using 1 2 by blast
qed

section \<open>Parsing the SSH connect command\<close>

text \<open>
  Claim C2. The command \<^verbatim>\<open>ssh -p 2222 user@10.0.0.5\<close> parses to port 2222, username
  \<^verbatim>\<open>user\<close> and host \<^verbatim>\<open>10.0.0.5\<close>. No command without an \<^verbatim>\<open>@\<close> matches the pattern.
  When the control plane answers the request for SSH credentials of a marked identity
  with a command that does not match, the second half of the synchronous constructor and
  \<^verbatim>\<open>_cls_connect\<close> raise the exception \<^verbatim>\<open>Could not parse SSH connection details\<close> and
  return no session. Every session with a marked identity that a construction returns
  (the asynchronous constructor called directly apart, which parses nothing) holds the
  port, username and host parsed from a connect command the control plane sent, and the
  password sent with it.
\<close>

theorem connect_command_parsing:
  "parse_connect_command ''ssh -p 2222 user@10.0.0.5'' = Some (2222, ''user'', ''10.0.0.5'') \<and>
   (CHR ''@'' \<notin> set cmd \<longrightarrow> parse_connect_command cmd = None) \<and>
   (is_brd (s_sandbox_id self) \<and>
    api_get_ssh env (s_sandbox_id self) (get_api_params env (s_connection_config self) no_params)
      (remote st) = (Inr ssh, w) \<and>
    parse_connect_command (connect_command ssh) = None \<longrightarrow>
      fst (init_surfaces env self st) =
        Inl (PyException ''Could not parse SSH connection details'')) \<and>
   (is_brd sandbox_id \<and>
    api_get_info env sandbox_id opts (remote st) = (Inr info, w1) \<and>
    api_get_ssh env sandbox_id opts w1 = (Inr ssh, w2) \<and>
    parse_connect_command (connect_command ssh) = None \<longrightarrow>
      fst (cls_connect cls env sandbox_id timeout opts st) =
        Inl (PyException ''Could not parse SSH connection details'')) \<and>
   (construct env c st = (Inr s, st') \<and> (\<forall>opts. c \<noteq> New_AsyncSandbox opts) \<and>
    is_brd (s_sandbox_id s) \<longrightarrow>
      (\<exists>p w ssh w'. api_get_ssh env (s_sandbox_id s) p w = (Inr ssh, w') \<and>
         endpoint_from s ssh))"
proof (intro conjI impI)
  show "parse_connect_command ''ssh -p 2222 user@10.0.0.5'' = Some (2222, ''user'', ''10.0.0.5'')"
    by (rule parse_sample)
  show "parse_connect_command cmd = None" if "CHR ''@'' \<notin> set cmd"
    using that by (rule parse_needs_at)
  show "fst (init_surfaces env self st) = Inl (PyException ''Could not parse SSH connection details'')"
    if "is_brd (s_sandbox_id self) \<and>
        api_get_ssh env (s_sandbox_id self) (get_api_params env (s_connection_config self) no_params)
          (remote st) = (Inr ssh, w) \<and>
        parse_connect_command (connect_command ssh) = None"
    using that by (simp add: init_surfaces_ssh Let_def)
  show "fst (cls_connect cls env sandbox_id timeout opts st) =
        Inl (PyException ''Could not parse SSH connection details'')"
    if "is_brd sandbox_id \<and>
        api_get_info env sandbox_id opts (remote st) = (Inr info, w1) \<and>
        api_get_ssh env sandbox_id opts w1 = (Inr ssh, w2) \<and>
        parse_connect_command (connect_command ssh) = None"
    using that by (simp add: cls_connect_def and_then_def call_def raise_def Let_def)
  show "\<exists>p w ssh w'. api_get_ssh env (s_sandbox_id s) p w = (Inr ssh, w') \<and> endpoint_from s ssh"
    if "construct env c st = (Inr s, st') \<and> (\<forall>opts. c \<noteq> New_AsyncSandbox opts) \<and>
        is_brd (s_sandbox_id s)"
    using that construct_endpoint [of env c st s st'] by blast
qed

theorem connect_command_parsing_witness:
  "parse_connect_command ''ssh -p 2222 user10.0.0.5'' = None \<and>
   fst (cls_connect Sandbox_cls unparsable_env ''brd-1'' None no_params new_process) =
     Inl (PyException ''Could not parse SSH connection details'')"
proof -
  have a: "CHR ''@'' \<notin> set ''ssh -p 2222 user10.0.0.5''" by simp
  have n: "parse_connect_command ''ssh -p 2222 user10.0.0.5'' = None"
    using connect_command_parsing [where cmd = "''ssh -p 2222 user10.0.0.5''",
        THEN conjunct2, THEN conjunct1] a
    by simp
  have h: "is_brd ''brd-1'' \<and>
      api_get_info unparsable_env ''brd-1'' no_params (remote new_process) =
        (Inr (sample_info ''brd-1''), [''get_info'']) \<and>
      api_get_ssh unparsable_env ''brd-1'' no_params [''get_info''] =
        (Inr \<lparr>connect_command = ''ssh -p 2222 user10.0.0.5'', auth_password = ''secret''\<rparr>,
         [''get_info'', ''get_ssh'']) \<and>
      parse_connect_command
        (connect_command \<lparr>connect_command = ''ssh -p 2222 user10.0.0.5'', auth_password = ''secret''\<rparr>)
        = None"
    using n by (simp add: is_brd_samples unparsable_env_simps new_process_def)
  have "fst (cls_connect Sandbox_cls unparsable_env ''brd-1'' None no_params new_process) =
     Inl (PyException ''Could not parse SSH connection details'')"
    using h connect_command_parsing [where sandbox_id = "''brd-1''" and env = unparsable_env
        and opts = no_params and st = new_process and cls = Sandbox_cls and timeout = None,
        THEN conjunct2, THEN conjunct2, THEN conjunct2, THEN conjunct1]
    by blast
  with n show ?thesis by simp
qed

section \<open>Resume and connect of a marked identity\<close>

text \<open>
  Claim C3. For an identity with the marker, \<^verbatim>\<open>_cls_resume\<close> and \<^verbatim>\<open>_cls_connect\<close> are
  the same computation, in both classes: the same calls in the same order (sandbox info,
  then SSH credentials, then the constructor), the same session and the same state
  afterwards, whatever the auto-pause flag and the two timeouts are. Neither makes the
  resume or the connect call of the control plane: replacing those two calls by any
  others changes nothing.
\<close>

theorem resume_is_connect_for_brd:
  assumes "is_brd sandbox_id"
  shows
    "Sandbox_cls_resume (env\<lparr>api_resume := f, api_connect := g\<rparr>) sandbox_id auto_pause timeout opts =
       Sandbox_cls_connect env sandbox_id timeout' opts \<and>
     AsyncSandbox_cls_resume (env\<lparr>api_resume := f, api_connect := g\<rparr>) sandbox_id auto_pause
         timeout opts =
       AsyncSandbox_cls_connect env sandbox_id timeout' opts \<and>
     Sandbox_cls_resume env sandbox_id auto_pause timeout opts =
       Sandbox_cls_connect env sandbox_id timeout' opts \<and>
     AsyncSandbox_cls_resume env sandbox_id auto_pause timeout opts =
       AsyncSandbox_cls_connect env sandbox_id timeout' opts"
  using assms
  by (simp add: Sandbox_cls_resume_def Sandbox_cls_connect_def AsyncSandbox_cls_resume_def
      AsyncSandbox_cls_connect_def cls_resume_def cls_connect_def Sandbox_cls_no_resume
      AsyncSandbox_init_no_resume cong: option.case_cong prod.case_cong)

theorem resume_is_connect_for_brd_witness:
  "Sandbox_cls_resume sample_env ''brd-1'' True (Some 60) no_params new_process =
     Sandbox_cls_connect sample_env ''brd-1'' None no_params new_process \<and>
   remote (snd (Sandbox_cls_resume sample_env ''brd-1'' True (Some 60) no_params new_process)) =
     [''get_info'', ''get_ssh'', ''get_info'', ''get_ssh'']"
proof -
  have b: "is_brd ''brd-1''" by (rule is_brd_samples)
  have e: "Sandbox_cls_resume sample_env ''brd-1'' True (Some 60) no_params =
     Sandbox_cls_connect sample_env ''brd-1'' None no_params"
    using resume_is_connect_for_brd [OF b, where env = sample_env and auto_pause = True
        and timeout = "Some 60" and opts = no_params and timeout' = None,
        THEN conjunct2, THEN conjunct2, THEN conjunct1] .
  have "remote (snd (Sandbox_cls_connect sample_env ''brd-1'' None no_params new_process)) =
     [''get_info'', ''get_ssh'', ''get_info'', ''get_ssh'']"
    by (simp add: Sandbox_cls_connect_def cls_connect_def Sandbox_cls_def Sandbox_init_def
      is_brd_samples sample_env_simps and_then_def call_def parse_sample new_process_def no_opts_def
      no_params_def init_identity_def init_from_opts_def init_surfaces_ssh sample_info_def ret_def
      set_access_token_header_def Let_def)
  with e show ?thesis by simp
qed

section \<open>The health probe\<close>

text \<open>
  Claim C5. For a session with a client of the execution daemon, \<open>is_running\<close> sends the
  health request and returns False, raising nothing, when the answer has status 502; for
  any other answer it raises the error the decoder returns for it, and returns True when
  the decoder returns none; when the request times out it raises the request-timeout
  error, which is no network error; any other failure of the request is passed on.
\<close>

theorem is_running_probe:
  assumes "s_envd_api self = Some client"
    and "send env (client_get client (ENVD_API_HEALTH_ROUTE env)
           (get_request_timeout env (s_connection_config self) request_timeout)) st = (outcome, st')"
  shows "is_running env self request_timeout st =
     (case outcome of
        Responded r \<Rightarrow>
          if status_code r = 502 then (Inr False, st')
          else (case handle_envd_api_exception env r of
                  Some err \<Rightarrow> (Inl err, st') | None \<Rightarrow> (Inr True, st'))
      | TimedOut \<Rightarrow> (Inl (TimeoutException ''Request timed out''), st')
      | Failed e \<Rightarrow> (Inl e, st'))"
  using assms
  by (simp add: is_running_def format_request_timeout_error_def split: probe_outcome.splits)

theorem is_running_probe_witness:
  "fst (is_running (probe_env (Responded \<lparr>status_code = 502, body = ''Bad Gateway''\<rparr>))
          (sample_session None) None new_process) = Inr False \<and>
   fst (is_running (probe_env (Responded \<lparr>status_code = 500, body = ''out of memory''\<rparr>))
          (sample_session None) None new_process) = Inl (SandboxException ''out of memory'') \<and>
   fst (is_running (probe_env (Responded \<lparr>status_code = 204, body = []\<rparr>))
          (sample_session None) None new_process) = Inr True \<and>
   fst (is_running (probe_env TimedOut) (sample_session None) None new_process) =
     Inl (TimeoutException ''Request timed out'')"
proof -
  have c: "s_envd_api (sample_session None) = Some sample_client"
    by (simp add: sample_session_def)
  have h: "handle_envd_api_exception (probe_env outcome) r =
      (if status_code r < 300 then None else Some (SandboxException (body r)))" for outcome r
    by (simp add: probe_env_def sample_env_simps)
  show ?thesis
    using is_running_probe [OF c probe_env_send] by (simp add: h)
qed

section \<open>Kill and set\_timeout against the control plane of the specification\<close>

text \<open>
  Claim C6. With the control plane of the specification, \<open>kill\<close> returns True exactly when
  the control plane knew the identity, and forgets it; a second \<open>kill\<close> of the same
  session returns False, raises nothing and changes nothing. So does any \<open>kill\<close> of an
  identity the control plane does not know.
\<close>

theorem kill_idempotent:
  "fst (kill (env\<lparr>api_kill := cls_kill\<rparr>) self opts st) =
     Inr (s_sandbox_id self \<in> sandboxes (remote st)) \<and>
   fst (kill (env\<lparr>api_kill := cls_kill\<rparr>) self opts'
          (snd (kill (env\<lparr>api_kill := cls_kill\<rparr>) self opts st))) = Inr False \<and>
   sandboxes (remote (snd (kill (env\<lparr>api_kill := cls_kill\<rparr>) self opts st))) =
     sandboxes (remote st) - {s_sandbox_id self} \<and>
   snd (kill (env\<lparr>api_kill := cls_kill\<rparr>) self opts'
          (snd (kill (env\<lparr>api_kill := cls_kill\<rparr>) self opts st))) =
     snd (kill (env\<lparr>api_kill := cls_kill\<rparr>) self opts st)"
  by (simp add: kill_def call_def cls_kill_def)

text \<open>
  Claim C7. With the control plane of the specification, after \<open>set_timeout n\<close> and then
  \<open>set_timeout m\<close>, with any time \<open>d\<close> passing in between, the deadline of the sandbox
  is the time of the second call plus \<open>m\<close>, and the control plane is in the state the
  second call alone would have left: \<open>n\<close> has no part in it. Whatever the control plane
  does, \<open>set_timeout\<close> leaves the rest of the process as it was: the pools, the
  warnings and the requests sent to the execution daemon.
\<close>

theorem set_timeout_last_write_wins:
  "deadline (remote (snd (set_timeout (env\<lparr>api_set_timeout := cls_set_timeout\<rparr>) self m opts'
       (elapse d (snd (set_timeout (env\<lparr>api_set_timeout := cls_set_timeout\<rparr>) self n opts st))))))
     (s_sandbox_id self) = Some (now (remote st) + d + m) \<and>
   snd (set_timeout (env\<lparr>api_set_timeout := cls_set_timeout\<rparr>) self m opts'
       (elapse d (snd (set_timeout (env\<lparr>api_set_timeout := cls_set_timeout\<rparr>) self n opts st)))) =
     snd (set_timeout (env\<lparr>api_set_timeout := cls_set_timeout\<rparr>) self m opts' (elapse d st)) \<and>
   pools (snd (set_timeout env' self n opts st')) = pools st' \<and>
   warnings (snd (set_timeout env' self n opts st')) = warnings st' \<and>
   sent (snd (set_timeout env' self n opts st')) = sent st'"
  by (simp add: set_timeout_def call_def cls_set_timeout_def elapse_def split: prod.splits)

section \<open>The access token goes out with every request\<close>



section \<open>Connection pools\<close>




section \<open>The guard of the synchronous constructor\<close>




end
